theory Spec2Isabelle
  imports Complex_Main
begin

section \<open>The servo module of the fin drive (servo.cpp)\<close>

text \<open>
  The module drives two banks of fin servos (port and starboard) through a PWM chip.
  \<^verbatim>\<open>servo::set_positions\<close> computes one angle per servo, limits its change against the
  last commanded angle and writes the pulse; \<^verbatim>\<open>servo::drive_fins\<close> turns a motion command
  into two phase accumulators, two amplitudes and a waveform kind and calls
  \<^verbatim>\<open>set_positions\<close> once per side; \<^verbatim>\<open>servo::clamp\<close> bounds a phase increment.

  Conventions of the embedding.
  \<^item> A C++ \<^verbatim>\<open>float\<close> is modelled by a \<^typ>\<open>real\<close>; infinities and NaN are not
    modelled. In \<^verbatim>\<open>set_positions\<close> every float sum is rounded to the float type, by
    the function \<open>float_round\<close> of the configuration: what is compared and stored there is
    the rounded sum. The sums and products of \<^verbatim>\<open>drive_fins\<close> are written as the source
    writes them, without the rounding: the theorems about \<^verbatim>\<open>drive_fins\<close> state these
    expressions and compare them with no exact bound.
  \<^item> The global arrays and the PWM chip are an explicit state that every function takes
    and returns.
  \<^item> An array access outside the array is undefined behaviour in C++; the model returns
    \<^term>\<open>None\<close> there.
  \<^item> Constants, tables and functions that servo.cpp uses but that are declared in
    servo.h, robot.h, waveform.h or the Arduino core are fields of a record \<open>config\<close>
    that every function takes as its first argument.
\<close>

subsection \<open>What servo.cpp takes from its headers\<close>

text \<open>
  \<open>SIDE_B\<close>, \<open>SIDE_P\<close> and \<open>SIDE_S\<close> are the constants \<^verbatim>\<open>B\<close>, \<^verbatim>\<open>P\<close> and \<^verbatim>\<open>S\<close> of the source;
  \<open>map_fn\<close> is the Arduino core's \<^verbatim>\<open>map\<close> together with the conversions of its float
  argument and of its result; \<open>float_round\<close> is the rounding of a real number to the
  float type of the target (IEEE binary32 on the Arduino boards).
\<close>

record config =
  NUM_SERVOS :: nat
  MAX_ANGLE_DELTA :: real
  MAX_TIME_INC :: real
  SERVOMIN :: real
  SERVOMAX :: real
  NEUTRALS_PORT :: "real list"
  NEUTRALS_STARBOARD :: "real list"
  SINWAVE :: int
  FLATWAVE :: int
  STANDINGWAVE :: int
  SINANDFLAT :: int
  SIDE_B :: int
  SIDE_P :: int
  SIDE_S :: int
  calc_angle_sinwave :: "real \<Rightarrow> real \<Rightarrow> real \<Rightarrow> nat \<Rightarrow> real"
  calc_angle_flatwave :: "real \<Rightarrow> real \<Rightarrow> real \<Rightarrow> real"
  calc_angle_standingwave :: "real \<Rightarrow> real \<Rightarrow> real \<Rightarrow> nat \<Rightarrow> real"
  calc_angle_sinandflat :: "real \<Rightarrow> real \<Rightarrow> real \<Rightarrow> nat \<Rightarrow> real"
  map_fn :: "real \<Rightarrow> real \<Rightarrow> real \<Rightarrow> real \<Rightarrow> real \<Rightarrow> real"
  float_round :: "real \<Rightarrow> real"

subsection \<open>State: the angle histories and the PWM chip\<close>

text \<open>
  \<^verbatim>\<open>float last_port_angle[5]\<close> and \<^verbatim>\<open>float last_starboard_angle[5]\<close> are lists; \<open>pwm\<close>
  is the sequence of \<^verbatim>\<open>pwm.setPWM(num, on, off)\<close> calls issued so far, oldest first.
\<close>

record servo_state =
  last_port_angle :: "real list"
  last_starboard_angle :: "real list"
  pwm :: "(nat \<times> real \<times> real) list"

text \<open>The state at program start: both arrays are initialised to five zeros.\<close>

definition init_state :: servo_state where
  "init_state = \<lparr>last_port_angle = [0, 0, 0, 0, 0],
                 last_starboard_angle = [0, 0, 0, 0, 0],
                 pwm = []\<rparr>"

text \<open>
  \<^verbatim>\<open>time_milli_t\<close>: the two phase accumulators. The type is declared in a header; its
  fields are added to floats and passed as the float argument \<^verbatim>\<open>time_milli\<close>, and are
  modelled as floats themselves.
\<close>

record time_milli_t =
  port :: real
  starboard :: real

subsection \<open>set\_positions\<close>

text \<open>
  The \<^verbatim>\<open>switch (wavetype)\<close>. The case labels of a switch are distinct, so the order of
  the tests is immaterial. In the default case \<^verbatim>\<open>angle\<close> keeps the value it has.
\<close>

definition calc_angle :: "config \<Rightarrow> int \<Rightarrow> real \<Rightarrow> real \<Rightarrow> real \<Rightarrow> nat \<Rightarrow> real \<Rightarrow> real" where
  "calc_angle cfg wavetype amplitude wavelength time_milli servonum angle =
     (if wavetype = SINWAVE cfg then calc_angle_sinwave cfg amplitude wavelength time_milli servonum
      else if wavetype = FLATWAVE cfg then calc_angle_flatwave cfg amplitude wavelength time_milli
      else if wavetype = STANDINGWAVE cfg then calc_angle_standingwave cfg amplitude wavelength time_milli servonum
      else if wavetype = SINANDFLAT cfg then calc_angle_sinandflat cfg amplitude wavelength time_milli servonum
      else angle)"

text \<open>
  The slew-rate limit written twice in the source: \<open>angle\<close> against the last commanded
  angle. The two limits are float sums: the source compares \<^verbatim>\<open>angle\<close> with the rounded
  sum and stores the rounded sum.
\<close>

definition limit_delta :: "config \<Rightarrow> real \<Rightarrow> real \<Rightarrow> real" where
  "limit_delta cfg last_angle angle =
     (if angle > float_round cfg (last_angle + MAX_ANGLE_DELTA cfg)
      then float_round cfg (last_angle + MAX_ANGLE_DELTA cfg)
      else if angle < float_round cfg (last_angle - MAX_ANGLE_DELTA cfg)
      then float_round cfg (last_angle - MAX_ANGLE_DELTA cfg)
      else angle)"

text \<open>
  What the limit guarantees about the angle it returns: it is one of the two rounded
  limits or lies between them.
\<close>

definition slew_limited :: "config \<Rightarrow> real \<Rightarrow> real \<Rightarrow> bool" where
  "slew_limited cfg last_angle angle \<longleftrightarrow>
     angle = float_round cfg (last_angle + MAX_ANGLE_DELTA cfg)
     \<or> angle = float_round cfg (last_angle - MAX_ANGLE_DELTA cfg)
     \<or> (float_round cfg (last_angle - MAX_ANGLE_DELTA cfg) \<le> angle
        \<and> angle \<le> float_round cfg (last_angle + MAX_ANGLE_DELTA cfg))"

text \<open>
  The block \<^verbatim>\<open>// PORT side angle set\<close>, on the pair of the local \<^verbatim>\<open>angle\<close> and the
  state. \<^verbatim>\<open>angle += NEUTRALS_PORT[servonum]\<close> is a float sum. The new value of \<^verbatim>\<open>angle\<close>
  is returned: the starboard block reads it.
\<close>

definition port_set :: "config \<Rightarrow> nat \<Rightarrow> real \<times> servo_state \<Rightarrow> (real \<times> servo_state) option" where
  "port_set cfg servonum s =
     (if servonum < length (NEUTRALS_PORT cfg) \<and> servonum < length (last_port_angle (snd s)) then
        let angle = limit_delta cfg (last_port_angle (snd s) ! servonum)
                      (float_round cfg (fst s + NEUTRALS_PORT cfg ! servonum));
            pulse_port = map_fn cfg angle (- 90) 90 (SERVOMIN cfg) (SERVOMAX cfg)
        in Some (angle, (snd s)\<lparr>pwm := pwm (snd s) @ [(servonum, 0, pulse_port)],
                                last_port_angle := (last_port_angle (snd s))[servonum := angle]\<rparr>)
      else None)"

text \<open>The block \<^verbatim>\<open>// STARBOARD side angle set\<close>.\<close>

definition starboard_set :: "config \<Rightarrow> nat \<Rightarrow> real \<times> servo_state \<Rightarrow> (real \<times> servo_state) option" where
  "starboard_set cfg servonum s =
     (if servonum < length (NEUTRALS_STARBOARD cfg) \<and> servonum < length (last_starboard_angle (snd s)) then
        let angle = limit_delta cfg (last_starboard_angle (snd s) ! servonum)
                      (float_round cfg (fst s + NEUTRALS_STARBOARD cfg ! servonum));
            pulse_starboard = map_fn cfg (- angle) (- 90) 90 (SERVOMIN cfg) (SERVOMAX cfg)
        in Some (angle, (snd s)\<lparr>pwm := pwm (snd s) @ [(servonum + NUM_SERVOS cfg, 0, pulse_starboard)],
                                last_starboard_angle := (last_starboard_angle (snd s))[servonum := angle]\<rparr>)
      else None)"

text \<open>The body of the \<^verbatim>\<open>for\<close> loop, for one value of \<^verbatim>\<open>servonum\<close>.\<close>

definition servo_body ::
  "config \<Rightarrow> real \<Rightarrow> real \<Rightarrow> real \<Rightarrow> int \<Rightarrow> int \<Rightarrow> nat \<Rightarrow> real \<times> servo_state \<Rightarrow> (real \<times> servo_state) option" where
  "servo_body cfg amplitude wavelength time_milli wavetype side servonum s =
     (let s1 = (calc_angle cfg wavetype amplitude wavelength time_milli servonum (fst s), snd s) in
      case (if side = SIDE_B cfg \<or> side = SIDE_P cfg then port_set cfg servonum s1 else Some s1) of
        None \<Rightarrow> None
      | Some s2 \<Rightarrow>
          (if side = SIDE_B cfg \<or> side = SIDE_S cfg then starboard_set cfg servonum s2 else Some s2))"

text \<open>
  The loop \<^verbatim>\<open>for (servonum = 0; servonum < NUM_SERVOS; servonum++)\<close>, from a given
  \<open>servonum\<close> on. The counter is a \<^verbatim>\<open>uint8_t\<close>; the arrays have five entries, so an
  access outside them (the result \<^term>\<open>None\<close>) comes long before the counter could wrap.
\<close>

function set_positions_from ::
  "config \<Rightarrow> real \<Rightarrow> real \<Rightarrow> real \<Rightarrow> int \<Rightarrow> int \<Rightarrow> nat \<Rightarrow> real \<times> servo_state \<Rightarrow> (real \<times> servo_state) option" where
  "set_positions_from cfg amplitude wavelength time_milli wavetype side servonum s =
     (if servonum < NUM_SERVOS cfg then
        (case servo_body cfg amplitude wavelength time_milli wavetype side servonum s of
           None \<Rightarrow> None
         | Some s' \<Rightarrow> set_positions_from cfg amplitude wavelength time_milli wavetype side (Suc servonum) s')
      else Some s)"
  by pat_completeness auto
termination
  by (relation "measure (\<lambda>(cfg, a, w, t, wt, sd, n, s). NUM_SERVOS cfg - n)") auto

declare set_positions_from.simps [simp del]

text \<open>
  \<^verbatim>\<open>servo::set_positions\<close>. The local \<^verbatim>\<open>angle\<close> is declared without an initial value;
  \<open>angle0\<close> is the value it happens to hold. It is read only when \<open>wavetype\<close> is none of
  the four case labels.
\<close>

definition set_positions ::
  "config \<Rightarrow> real \<Rightarrow> real \<Rightarrow> real \<Rightarrow> int \<Rightarrow> int \<Rightarrow> real \<Rightarrow> servo_state \<Rightarrow> servo_state option" where
  "set_positions cfg amplitude wavelength time_milli wavetype side angle0 st =
     map_option snd (set_positions_from cfg amplitude wavelength time_milli wavetype side 0 (angle0, st))"

text \<open>
  The channels that one pass of the loop body writes, in the order of the two
  \<^verbatim>\<open>pwm.setPWM\<close> calls: \<^verbatim>\<open>servonum\<close> for the port side, \<^verbatim>\<open>servonum + NUM_SERVOS\<close> for the
  starboard side.
\<close>

definition written_channels :: "config \<Rightarrow> int \<Rightarrow> nat \<Rightarrow> nat list" where
  "written_channels cfg side servonum =
     (if side = SIDE_B cfg \<or> side = SIDE_P cfg then [servonum] else [])
     @ (if side = SIDE_B cfg \<or> side = SIDE_S cfg then [servonum + NUM_SERVOS cfg] else [])"

subsection \<open>clamp\<close>

definition clamp :: "config \<Rightarrow> real \<Rightarrow> real" where
  "clamp cfg time_inc =
     (if time_inc > MAX_TIME_INC cfg then MAX_TIME_INC cfg
      else if time_inc < - MAX_TIME_INC cfg then - MAX_TIME_INC cfg
      else time_inc)"

subsection \<open>drive\_fins\<close>

text \<open>
  The locals of \<^verbatim>\<open>drive_fins\<close> when it reaches the comment \<^verbatim>\<open>// set positions\<close>:
  \<^verbatim>\<open>amp_P\<close>, \<^verbatim>\<open>amp_S\<close>, the updated \<^verbatim>\<open>time\<close> and \<^verbatim>\<open>waveform\<close>.
\<close>

record fin_locals =
  amp_P :: real
  amp_S :: real
  time_new :: time_milli_t
  waveform :: int

text \<open>
  Everything \<^verbatim>\<open>drive_fins\<close> does before it calls \<^verbatim>\<open>set_positions\<close>. \<^verbatim>\<open>abs\<close> is the
  Arduino macro, on floats. \<^verbatim>\<open>pitch\<close> is never read.
\<close>

definition drive_fins_locals ::
  "config \<Rightarrow> real \<Rightarrow> real \<Rightarrow> real \<Rightarrow> real \<Rightarrow> real \<Rightarrow> time_milli_t \<Rightarrow> fin_locals" where
  "drive_fins_locals cfg surge sway pitch yaw amp tm =
     (if \<bar>surge\<bar> \<le> 0.05 \<and> \<bar>yaw\<bar> \<le> 0.05 then
        \<lparr>amp_P = amp, amp_S = amp,
         time_new =
           (if sway > 0 then
              tm\<lparr>port := port tm + clamp cfg (sway * MAX_TIME_INC cfg), starboard := 0\<rparr>
            else if sway < 0 then
              tm\<lparr>starboard := starboard tm + clamp cfg (sway * MAX_TIME_INC cfg), port := 0\<rparr>
            else tm),
         waveform = FLATWAVE cfg\<rparr>
      else
        let time_inc_P0 = surge * MAX_TIME_INC cfg;
            time_inc_S0 = surge * MAX_TIME_INC cfg;
            time_inc_P = (if yaw > 0 then time_inc_P0 + yaw * MAX_TIME_INC cfg
                          else if yaw < 0 then time_inc_P0 - yaw * MAX_TIME_INC cfg
                          else time_inc_P0);
            time_inc_S = (if yaw > 0 then time_inc_S0 - yaw * MAX_TIME_INC cfg
                          else if yaw < 0 then time_inc_S0 + yaw * MAX_TIME_INC cfg
                          else time_inc_S0)
        in \<lparr>amp_P = (if sway > 0 then amp else if sway < 0 then amp * (1 - sway) else amp),
            amp_S = (if sway > 0 then amp * (1 - sway) else amp),
            time_new = tm\<lparr>port := port tm + clamp cfg time_inc_P,
                          starboard := starboard tm + clamp cfg time_inc_S\<rparr>,
            waveform = SINWAVE cfg\<rparr>)"

text \<open>
  \<^verbatim>\<open>servo::drive_fins\<close>: the two calls and the returned \<^verbatim>\<open>time\<close>. Both calls pass
  \<^verbatim>\<open>FLATWAVE\<close> or \<^verbatim>\<open>SINWAVE\<close>, so \<^verbatim>\<open>angle\<close> is assigned before it is read and its
  initial value (here 0) does not matter: see \<open>set_positions_angle0_irrelevant\<close>.
\<close>

definition drive_fins ::
  "config \<Rightarrow> real \<Rightarrow> real \<Rightarrow> real \<Rightarrow> real \<Rightarrow> real \<Rightarrow> time_milli_t \<Rightarrow> servo_state
     \<Rightarrow> (time_milli_t \<times> servo_state) option" where
  "drive_fins cfg surge sway pitch yaw amp tm st =
     (let l = drive_fins_locals cfg surge sway pitch yaw amp tm in
      case set_positions cfg (amp_S l) 480 (port (time_new l)) (waveform l) (SIDE_P cfg) 0 st of
        None \<Rightarrow> None
      | Some st1 \<Rightarrow>
          (case set_positions cfg (amp_P l) 480 (starboard (time_new l)) (waveform l) (SIDE_S cfg) 0 st1 of
             None \<Rightarrow> None
           | Some st2 \<Rightarrow> Some (time_new l, st2)))"

subsection \<open>Well-formed configurations and states\<close>

text \<open>
  The arrays of servo.cpp have five entries, and the loop stays inside them and inside
  the two tables of neutral angles when \<^verbatim>\<open>NUM_SERVOS\<close> is at most their length.
\<close>

definition wf_config :: "config \<Rightarrow> bool" where
  "wf_config cfg \<longleftrightarrow>
     NUM_SERVOS cfg \<le> 5 \<and> NUM_SERVOS cfg \<le> length (NEUTRALS_PORT cfg)
     \<and> NUM_SERVOS cfg \<le> length (NEUTRALS_STARBOARD cfg)"

definition wf_state :: "servo_state \<Rightarrow> bool" where
  "wf_state st \<longleftrightarrow> length (last_port_angle st) = 5 \<and> length (last_starboard_angle st) = 5"

subsection \<open>A concrete configuration\<close>

text \<open>
  The Arduino core's \<^verbatim>\<open>map\<close>, as its reference gives it:
  \<^verbatim>\<open>long map(long x, long in_min, long in_max, long out_min, long out_max)
  { return (x - in_min) * (out_max - out_min) / (in_max - in_min) + out_min; }\<close>
  A float argument is converted to \<^verbatim>\<open>long\<close> by dropping its fraction, and the division
  of two \<^verbatim>\<open>long\<close>s rounds towards zero. Overflow is not modelled.
\<close>

definition c_long :: "real \<Rightarrow> int" where
  "c_long x = (if 0 \<le> x then \<lfloor>x\<rfloor> else - \<lfloor>- x\<rfloor>)"

definition c_div :: "int \<Rightarrow> int \<Rightarrow> int" where
  "c_div a b = sgn a * sgn b * (\<bar>a\<bar> div \<bar>b\<bar>)"

definition arduino_map :: "real \<Rightarrow> real \<Rightarrow> real \<Rightarrow> real \<Rightarrow> real \<Rightarrow> real" where
  "arduino_map x in_min in_max out_min out_max =
     real_of_int (c_div ((c_long x - c_long in_min) * (c_long out_max - c_long out_min))
                        (c_long in_max - c_long in_min) + c_long out_min)"

text \<open>
  Rounding to IEEE binary32, to nearest with ties to even: a number in the binade
  \<open>2 ^ e \<le> \<bar>x\<bar> < 2 ^ (e + 1)\<close> is rounded to a multiple of \<open>2 ^ (e - 23)\<close>, and below
  \<open>2 ^ (- 126)\<close> to a multiple of \<open>2 ^ (- 149)\<close>. \<open>binade\<close> finds \<open>e\<close> by halving or
  doubling, at most as often as its first argument says. Overflow to infinity is not
  modelled.
\<close>

definition round_even :: "real \<Rightarrow> int" where
  "round_even x =
     (let f = \<lfloor>x\<rfloor> in
      if x - real_of_int f < 1 / 2 then f
      else if 1 / 2 < x - real_of_int f then f + 1
      else if even f then f else f + 1)"

fun binade :: "nat \<Rightarrow> real \<Rightarrow> int \<Rightarrow> int" where
  "binade 0 x e = e"
| "binade (Suc n) x e =
     (if 2 \<le> x then binade n (x / 2) (e + 1)
      else if x < 1 then binade n (x * 2) (e - 1)
      else e)"

definition pow2 :: "int \<Rightarrow> real" where
  "pow2 e = (if 0 \<le> e then 2 ^ nat e else 1 / 2 ^ nat (- e))"

definition float32 :: "real \<Rightarrow> real" where
  "float32 x =
     (if x = 0 then 0
      else let e = max (binade 300 \<bar>x\<bar> 0) (- 126); u = pow2 (e - 23)
           in sgn x * (real_of_int (round_even (\<bar>x\<bar> / u)) * u))"

text \<open>
  The headers are not part of the sources, so the values below are an illustration, used
  to evaluate the model: five servos, as the arrays have five entries, small neutral
  offsets, the pulse range of the PWM library's examples, and stand-ins for the four
  waveform functions of waveform.cpp that, like a sinusoid scaled by the amplitude, give
  angle 0 at amplitude 0. Floats are binary32.
\<close>

definition demo_config :: config where
  "demo_config =
     \<lparr>NUM_SERVOS = 5, MAX_ANGLE_DELTA = 5, MAX_TIME_INC = 20, SERVOMIN = 150, SERVOMAX = 600,
      NEUTRALS_PORT = [2, - 3, 0, 1, - 1], NEUTRALS_STARBOARD = [1, 0, - 2, 0, 3],
      SINWAVE = 0, FLATWAVE = 1, STANDINGWAVE = 2, SINANDFLAT = 3,
      SIDE_B = 0, SIDE_P = 1, SIDE_S = 2,
      calc_angle_sinwave = (\<lambda>a w t i. a * (t / w - real i / 5)),
      calc_angle_flatwave = (\<lambda>a w t. a * (t / w)),
      calc_angle_standingwave = (\<lambda>a w t i. a * (real i / 5) * (t / w)),
      calc_angle_sinandflat = (\<lambda>a w t i. a * (t / w) + a * (t / w - real i / 5)),
      map_fn = arduino_map, float_round = float32\<rparr>"

section \<open>Properties of set\_positions\<close>

subsection \<open>One pass of the loop body\<close>

lemma limit_delta_limited: "slew_limited cfg a (limit_delta cfg a x)"
  by (auto simp: limit_delta_def slew_limited_def)

text \<open>Where the two sums are exact and the delta is not negative, the limit is the exact one.\<close>

lemma slew_limited_exact:
  assumes "slew_limited cfg a r" and "0 \<le> MAX_ANGLE_DELTA cfg"
    and "float_round cfg (a + MAX_ANGLE_DELTA cfg) = a + MAX_ANGLE_DELTA cfg"
    and "float_round cfg (a - MAX_ANGLE_DELTA cfg) = a - MAX_ANGLE_DELTA cfg"
  shows "\<bar>r - a\<bar> \<le> MAX_ANGLE_DELTA cfg"
  using assms by (auto simp: slew_limited_def)

lemma binade_numeral:
  "binade (numeral k) x e =
     (if 2 \<le> x then binade (pred_numeral k) (x / 2) (e + 1)
      else if x < 1 then binade (pred_numeral k) (x * 2) (e - 1)
      else e)"
  by (simp add: numeral_eq_Suc)

lemmas float32_eval = float32_def binade_numeral pow2_def round_even_def Let_def

lemma port_set_SomeD:
  assumes "port_set cfg k s = Some s'"
  shows "k < length (NEUTRALS_PORT cfg)" and "k < length (last_port_angle (snd s))"
    and "fst s' = limit_delta cfg (last_port_angle (snd s) ! k)
                   (float_round cfg (fst s + NEUTRALS_PORT cfg ! k))"
    and "last_port_angle (snd s') = (last_port_angle (snd s))[k := fst s']"
    and "last_starboard_angle (snd s') = last_starboard_angle (snd s)"
    and "pwm (snd s') = pwm (snd s) @ [(k, 0, map_fn cfg (fst s') (- 90) 90 (SERVOMIN cfg) (SERVOMAX cfg))]"
  using assms by (auto simp: port_set_def Let_def split: if_splits)

lemma starboard_set_SomeD:
  assumes "starboard_set cfg k s = Some s'"
  shows "k < length (NEUTRALS_STARBOARD cfg)" and "k < length (last_starboard_angle (snd s))"
    and "fst s' = limit_delta cfg (last_starboard_angle (snd s) ! k)
                   (float_round cfg (fst s + NEUTRALS_STARBOARD cfg ! k))"
    and "last_starboard_angle (snd s') = (last_starboard_angle (snd s))[k := fst s']"
    and "last_port_angle (snd s') = last_port_angle (snd s)"
    and "pwm (snd s') = pwm (snd s) @ [(k + NUM_SERVOS cfg, 0, map_fn cfg (- fst s') (- 90) 90 (SERVOMIN cfg) (SERVOMAX cfg))]"
  using assms by (auto simp: starboard_set_def Let_def split: if_splits)

lemma port_set_Some:
  "k < length (NEUTRALS_PORT cfg) \<Longrightarrow> k < length (last_port_angle (snd s)) \<Longrightarrow> \<exists>s'. port_set cfg k s = Some s'"
  by (simp add: port_set_def Let_def)

lemma starboard_set_Some:
  "k < length (NEUTRALS_STARBOARD cfg) \<Longrightarrow> k < length (last_starboard_angle (snd s)) \<Longrightarrow> \<exists>s'. starboard_set cfg k s = Some s'"
  by (simp add: starboard_set_def Let_def)


lemma servo_body_cases:
  assumes "servo_body cfg a w t wt sd k s = Some s'"
  obtains s2 where
    "if sd = SIDE_B cfg \<or> sd = SIDE_P cfg
     then port_set cfg k (calc_angle cfg wt a w t k (fst s), snd s) = Some s2
     else s2 = (calc_angle cfg wt a w t k (fst s), snd s)"
    and "if sd = SIDE_B cfg \<or> sd = SIDE_S cfg then starboard_set cfg k s2 = Some s' else s' = s2"
  using assms unfolding servo_body_def Let_def
  by (auto split: option.splits if_splits)

lemma servo_body_port:
  assumes "servo_body cfg a w t wt sd k s = Some s'"
  shows "last_port_angle (snd s') =
     (if sd = SIDE_B cfg \<or> sd = SIDE_P cfg
      then (last_port_angle (snd s))[k := limit_delta cfg (last_port_angle (snd s) ! k)
              (float_round cfg (calc_angle cfg wt a w t k (fst s) + NEUTRALS_PORT cfg ! k))]
      else last_port_angle (snd s))"
proof -
  let ?s1 = "(calc_angle cfg wt a w t k (fst s), snd s)"
  from assms obtain s2 where
    p: "if sd = SIDE_B cfg \<or> sd = SIDE_P cfg then port_set cfg k ?s1 = Some s2 else s2 = ?s1"
    and q: "if sd = SIDE_B cfg \<or> sd = SIDE_S cfg then starboard_set cfg k s2 = Some s' else s' = s2"
    by (rule servo_body_cases)
  have 1: "last_port_angle (snd s') = last_port_angle (snd s2)"
    using q starboard_set_SomeD(5) [of cfg k s2 s'] by (simp split: if_splits)
  have 2: "last_port_angle (snd s2) =
     (if sd = SIDE_B cfg \<or> sd = SIDE_P cfg
      then (last_port_angle (snd s))[k := limit_delta cfg (last_port_angle (snd s) ! k)
              (float_round cfg (calc_angle cfg wt a w t k (fst s) + NEUTRALS_PORT cfg ! k))]
      else last_port_angle (snd s))"
    using p port_set_SomeD(3,4) [of cfg k ?s1 s2] by (simp split: if_splits)
  from 1 2 show ?thesis by simp
qed

lemma servo_body_starboard:
  assumes "servo_body cfg a w t wt sd k s = Some s'"
  shows "last_starboard_angle (snd s') =
     (if sd = SIDE_B cfg \<or> sd = SIDE_S cfg
      then (last_starboard_angle (snd s))[k := limit_delta cfg (last_starboard_angle (snd s) ! k)
              (float_round cfg ((if sd = SIDE_B cfg \<or> sd = SIDE_P cfg
                then limit_delta cfg (last_port_angle (snd s) ! k)
                       (float_round cfg (calc_angle cfg wt a w t k (fst s) + NEUTRALS_PORT cfg ! k))
                else calc_angle cfg wt a w t k (fst s))
               + NEUTRALS_STARBOARD cfg ! k))]
      else last_starboard_angle (snd s))"
proof -
  let ?s1 = "(calc_angle cfg wt a w t k (fst s), snd s)"
  from assms obtain s2 where
    p: "if sd = SIDE_B cfg \<or> sd = SIDE_P cfg then port_set cfg k ?s1 = Some s2 else s2 = ?s1"
    and q: "if sd = SIDE_B cfg \<or> sd = SIDE_S cfg then starboard_set cfg k s2 = Some s' else s' = s2"
    by (rule servo_body_cases)
  have 1: "last_starboard_angle (snd s2) = last_starboard_angle (snd s)"
    using p port_set_SomeD(5) [of cfg k ?s1 s2] by (simp split: if_splits)
  have 2: "fst s2 = (if sd = SIDE_B cfg \<or> sd = SIDE_P cfg
                then limit_delta cfg (last_port_angle (snd s) ! k)
                       (float_round cfg (calc_angle cfg wt a w t k (fst s) + NEUTRALS_PORT cfg ! k))
                else calc_angle cfg wt a w t k (fst s))"
    using p port_set_SomeD(3) [of cfg k ?s1 s2] by (simp split: if_splits)
  have 3: "last_starboard_angle (snd s') =
     (if sd = SIDE_B cfg \<or> sd = SIDE_S cfg
      then (last_starboard_angle (snd s2))[k := limit_delta cfg (last_starboard_angle (snd s2) ! k)
              (float_round cfg (fst s2 + NEUTRALS_STARBOARD cfg ! k))]
      else last_starboard_angle (snd s2))"
    using q starboard_set_SomeD(3,4) [of cfg k s2 s'] by (simp split: if_splits)
  show ?thesis unfolding 3 1 2 ..
qed

lemma servo_body_in_range:
  assumes "servo_body cfg a w t wt sd k s = Some s'"
  shows "sd = SIDE_B cfg \<or> sd = SIDE_P cfg \<Longrightarrow> k < length (last_port_angle (snd s))"
    and "sd = SIDE_B cfg \<or> sd = SIDE_S cfg \<Longrightarrow> k < length (last_starboard_angle (snd s))"
proof -
  let ?s1 = "(calc_angle cfg wt a w t k (fst s), snd s)"
  from assms obtain s2 where
    p: "if sd = SIDE_B cfg \<or> sd = SIDE_P cfg then port_set cfg k ?s1 = Some s2 else s2 = ?s1"
    and q: "if sd = SIDE_B cfg \<or> sd = SIDE_S cfg then starboard_set cfg k s2 = Some s' else s' = s2"
    by (rule servo_body_cases)
  have 1: "last_starboard_angle (snd s2) = last_starboard_angle (snd s)"
    using p port_set_SomeD(5) [of cfg k ?s1 s2] by (simp split: if_splits)
  show "sd = SIDE_B cfg \<or> sd = SIDE_P cfg \<Longrightarrow> k < length (last_port_angle (snd s))"
    using p port_set_SomeD(2) [of cfg k ?s1 s2] by (simp split: if_splits)
  show "sd = SIDE_B cfg \<or> sd = SIDE_S cfg \<Longrightarrow> k < length (last_starboard_angle (snd s))"
    using q starboard_set_SomeD(2) [of cfg k s2 s'] 1 by (simp split: if_splits)
qed

lemma servo_body_length:
  assumes "servo_body cfg a w t wt sd k s = Some s'"
  shows "length (last_port_angle (snd s')) = length (last_port_angle (snd s))
       \<and> length (last_starboard_angle (snd s')) = length (last_starboard_angle (snd s))"
  by (simp add: servo_body_port [OF assms] servo_body_starboard [OF assms])

lemma servo_body_other:
  assumes "servo_body cfg a w t wt sd k s = Some s'" and "i \<noteq> k"
  shows "last_port_angle (snd s') ! i = last_port_angle (snd s) ! i
       \<and> last_starboard_angle (snd s') ! i = last_starboard_angle (snd s) ! i"
  using assms(2) by (simp add: servo_body_port [OF assms(1)] servo_body_starboard [OF assms(1)])

lemma servo_body_slew:
  assumes b: "servo_body cfg a w t wt sd k s = Some s'"
  shows "sd = SIDE_B cfg \<or> sd = SIDE_P cfg \<Longrightarrow>
           slew_limited cfg (last_port_angle (snd s) ! k) (last_port_angle (snd s') ! k)"
    and "sd = SIDE_B cfg \<or> sd = SIDE_S cfg \<Longrightarrow>
           slew_limited cfg (last_starboard_angle (snd s) ! k) (last_starboard_angle (snd s') ! k)"
proof -
  show "sd = SIDE_B cfg \<or> sd = SIDE_P cfg \<Longrightarrow>
           slew_limited cfg (last_port_angle (snd s) ! k) (last_port_angle (snd s') ! k)"
    using servo_body_in_range(1) [OF b]
    by (simp add: servo_body_port [OF b] limit_delta_limited)
  show "sd = SIDE_B cfg \<or> sd = SIDE_S cfg \<Longrightarrow>
           slew_limited cfg (last_starboard_angle (snd s) ! k) (last_starboard_angle (snd s') ! k)"
    using servo_body_in_range(2) [OF b]
    by (simp add: servo_body_starboard [OF b] limit_delta_limited)
qed

lemma servo_body_Some:
  assumes "k < length (NEUTRALS_PORT cfg)" "k < length (NEUTRALS_STARBOARD cfg)"
    "k < length (last_port_angle (snd s))" "k < length (last_starboard_angle (snd s))"
  shows "\<exists>s'. servo_body cfg a w t wt sd k s = Some s'"
  using assms
  by (auto simp: servo_body_def port_set_def starboard_set_def Let_def split: option.splits)

text \<open>With side \<open>P\<close> alone, the angle carried to the next pass is the port entry just stored.\<close>

lemma servo_body_port_only:
  assumes b: "servo_body cfg a w t wt sd k s = Some s'"
    and p: "sd = SIDE_B cfg \<or> sd = SIDE_P cfg" and q: "\<not> (sd = SIDE_B cfg \<or> sd = SIDE_S cfg)"
  shows "fst s' = limit_delta cfg (last_port_angle (snd s) ! k)
                    (float_round cfg (calc_angle cfg wt a w t k (fst s) + NEUTRALS_PORT cfg ! k))"
    and "last_port_angle (snd s') ! k = fst s'"
proof -
  let ?s1 = "(calc_angle cfg wt a w t k (fst s), snd s)"
  from b obtain s2 where
    1: "if sd = SIDE_B cfg \<or> sd = SIDE_P cfg then port_set cfg k ?s1 = Some s2 else s2 = ?s1"
    and 2: "if sd = SIDE_B cfg \<or> sd = SIDE_S cfg then starboard_set cfg k s2 = Some s' else s' = s2"
    by (rule servo_body_cases)
  from 2 q have e: "s' = s2" by simp
  from 1 p have ps: "port_set cfg k ?s1 = Some s'" unfolding e by simp
  from port_set_SomeD(3) [OF ps]
  show "fst s' = limit_delta cfg (last_port_angle (snd s) ! k)
                    (float_round cfg (calc_angle cfg wt a w t k (fst s) + NEUTRALS_PORT cfg ! k))"
    by simp
  from port_set_SomeD(2,4) [OF ps] show "last_port_angle (snd s') ! k = fst s'" by simp
qed

subsection \<open>The loop\<close>

lemma set_positions_from_length:
  "set_positions_from cfg a w t wt sd n s = Some s' \<Longrightarrow>
   length (last_port_angle (snd s')) = length (last_port_angle (snd s))
   \<and> length (last_starboard_angle (snd s')) = length (last_starboard_angle (snd s))"
proof (induction cfg a w t wt sd n s rule: set_positions_from.induct)
  case (1 cfg a w t wt sd n s)
  show ?case
  proof (cases "n < NUM_SERVOS cfg")
    case True
    with "1.prems" obtain s1 where b: "servo_body cfg a w t wt sd n s = Some s1"
      and r: "set_positions_from cfg a w t wt sd (Suc n) s1 = Some s'"
      by (auto simp: set_positions_from.simps [of cfg a w t wt sd n s] split: option.splits)
    from "1.IH" [OF True b r] servo_body_length [OF b] show ?thesis by simp
  next
    case False
    with "1.prems" show ?thesis by (simp add: set_positions_from.simps [of cfg a w t wt sd n s])
  qed
qed

lemma set_positions_from_below:
  "set_positions_from cfg a w t wt sd n s = Some s' \<Longrightarrow> i < n \<Longrightarrow>
   last_port_angle (snd s') ! i = last_port_angle (snd s) ! i
   \<and> last_starboard_angle (snd s') ! i = last_starboard_angle (snd s) ! i"
proof (induction cfg a w t wt sd n s rule: set_positions_from.induct)
  case (1 cfg a w t wt sd n s)
  show ?case
  proof (cases "n < NUM_SERVOS cfg")
    case True
    with "1.prems" obtain s1 where b: "servo_body cfg a w t wt sd n s = Some s1"
      and r: "set_positions_from cfg a w t wt sd (Suc n) s1 = Some s'"
      by (auto simp: set_positions_from.simps [of cfg a w t wt sd n s] split: option.splits)
    from "1.prems" have "i \<noteq> n" "i < Suc n" by auto
    with "1.IH" [OF True b r] servo_body_other [OF b] show ?thesis by simp
  next
    case False
    with "1.prems" show ?thesis by (simp add: set_positions_from.simps [of cfg a w t wt sd n s])
  qed
qed

lemma set_positions_from_slew:
  "set_positions_from cfg a w t wt sd n s = Some s' \<Longrightarrow> n \<le> i \<Longrightarrow> i < NUM_SERVOS cfg \<Longrightarrow>
   (sd = SIDE_B cfg \<or> sd = SIDE_P cfg \<longrightarrow>
      slew_limited cfg (last_port_angle (snd s) ! i) (last_port_angle (snd s') ! i))
   \<and> (sd = SIDE_B cfg \<or> sd = SIDE_S cfg \<longrightarrow>
      slew_limited cfg (last_starboard_angle (snd s) ! i) (last_starboard_angle (snd s') ! i))"
proof (induction cfg a w t wt sd n s rule: set_positions_from.induct)
  case (1 cfg a w t wt sd n s)
  from "1.prems"(2,3) have True: "n < NUM_SERVOS cfg" by simp
  with "1.prems"(1) obtain s1 where b: "servo_body cfg a w t wt sd n s = Some s1"
    and r: "set_positions_from cfg a w t wt sd (Suc n) s1 = Some s'"
    by (auto simp: set_positions_from.simps [of cfg a w t wt sd n s] split: option.splits)
  show ?case
  proof (cases "i = n")
    case True
    then have "i < Suc n" by simp
    from set_positions_from_below [OF r this] servo_body_slew [OF b] True
    show ?thesis by simp
  next
    case False
    with "1.prems"(2) have "Suc n \<le> i" by simp
    from "1.IH" [OF \<open>n < NUM_SERVOS cfg\<close> b r this "1.prems"(3)] servo_body_other [OF b False]
    show ?thesis by simp
  qed
qed

lemma set_positions_from_Some:
  "NUM_SERVOS cfg \<le> length (NEUTRALS_PORT cfg) \<Longrightarrow> NUM_SERVOS cfg \<le> length (NEUTRALS_STARBOARD cfg) \<Longrightarrow>
   NUM_SERVOS cfg \<le> length (last_port_angle (snd s)) \<Longrightarrow> NUM_SERVOS cfg \<le> length (last_starboard_angle (snd s)) \<Longrightarrow>
   \<exists>s'. set_positions_from cfg a w t wt sd n s = Some s'"
proof (induction cfg a w t wt sd n s rule: set_positions_from.induct)
  case (1 cfg a w t wt sd n s)
  show ?case
  proof (cases "n < NUM_SERVOS cfg")
    case True
    with "1.prems" obtain s1 where b: "servo_body cfg a w t wt sd n s = Some s1"
      using servo_body_Some [of n cfg s a w t wt sd] by auto
    from servo_body_length [OF b] "1.prems"
    have "\<exists>s'. set_positions_from cfg a w t wt sd (Suc n) s1 = Some s'"
      by (intro "1.IH" [OF True b]) auto
    with b True show ?thesis by (simp add: set_positions_from.simps [of cfg a w t wt sd n s])
  next
    case False
    then show ?thesis by (simp add: set_positions_from.simps [of cfg a w t wt sd n s])
  qed
qed


lemma set_positions_Some:
  assumes "wf_config cfg" and "wf_state st"
  shows "\<exists>st'. set_positions cfg a w t wt sd angle0 st = Some st' \<and> wf_state st'"
proof -
  from assms obtain s' where r: "set_positions_from cfg a w t wt sd 0 (angle0, st) = Some s'"
    using set_positions_from_Some [of cfg "(angle0, st)" a w t wt sd 0]
    by (auto simp: wf_config_def wf_state_def)
  from set_positions_from_length [OF r] assms(2) have "wf_state (snd s')"
    by (simp add: wf_state_def)
  with r show ?thesis by (simp add: set_positions_def)
qed

subsection \<open>The writes of a call\<close>

lemma servo_body_pwm:
  assumes "servo_body cfg a w t wt sd k s = Some s'"
  shows "\<exists>ws. pwm (snd s') = pwm (snd s) @ ws \<and> map fst ws = written_channels cfg sd k"
proof -
  let ?s1 = "(calc_angle cfg wt a w t k (fst s), snd s)"
  from assms obtain s2 where
    p: "if sd = SIDE_B cfg \<or> sd = SIDE_P cfg then port_set cfg k ?s1 = Some s2 else s2 = ?s1"
    and q: "if sd = SIDE_B cfg \<or> sd = SIDE_S cfg then starboard_set cfg k s2 = Some s' else s' = s2"
    by (rule servo_body_cases)
  have 1: "\<exists>ws. pwm (snd s2) = pwm (snd s) @ ws \<and>
             map fst ws = (if sd = SIDE_B cfg \<or> sd = SIDE_P cfg then [k] else [])"
    using p port_set_SomeD(6) [of cfg k ?s1 s2] by (simp split: if_splits)
  have 2: "\<exists>ws. pwm (snd s') = pwm (snd s2) @ ws \<and>
             map fst ws = (if sd = SIDE_B cfg \<or> sd = SIDE_S cfg then [k + NUM_SERVOS cfg] else [])"
    using q starboard_set_SomeD(6) [of cfg k s2 s'] by (simp split: if_splits)
  from 1 obtain ws1 where w1: "pwm (snd s2) = pwm (snd s) @ ws1"
    "map fst ws1 = (if sd = SIDE_B cfg \<or> sd = SIDE_P cfg then [k] else [])" by blast
  from 2 obtain ws2 where w2: "pwm (snd s') = pwm (snd s2) @ ws2"
    "map fst ws2 = (if sd = SIDE_B cfg \<or> sd = SIDE_S cfg then [k + NUM_SERVOS cfg] else [])" by blast
  have "pwm (snd s') = pwm (snd s) @ (ws1 @ ws2)" using w1(1) w2(1) by simp
  moreover have "map fst (ws1 @ ws2) = written_channels cfg sd k"
    unfolding written_channels_def map_append w1(2) w2(2) ..
  ultimately show ?thesis by blast
qed

lemma set_positions_from_pwm:
  "set_positions_from cfg a w t wt sd n s = Some s' \<Longrightarrow>
   \<exists>ws. pwm (snd s') = pwm (snd s) @ ws \<and>
        map fst ws = concat (map (written_channels cfg sd) [n..<NUM_SERVOS cfg])"
proof (induction cfg a w t wt sd n s rule: set_positions_from.induct)
  case (1 cfg a w t wt sd n s)
  show ?case
  proof (cases "n < NUM_SERVOS cfg")
    case True
    with "1.prems" obtain s1 where b: "servo_body cfg a w t wt sd n s = Some s1"
      and r: "set_positions_from cfg a w t wt sd (Suc n) s1 = Some s'"
      by (auto simp: set_positions_from.simps [of cfg a w t wt sd n s] split: option.splits)
    from servo_body_pwm [OF b] obtain ws1 where
      w1: "pwm (snd s1) = pwm (snd s) @ ws1" "map fst ws1 = written_channels cfg sd n" by blast
    from "1.IH" [OF True b r] obtain ws2 where
      w2: "pwm (snd s') = pwm (snd s1) @ ws2"
        "map fst ws2 = concat (map (written_channels cfg sd) [Suc n..<NUM_SERVOS cfg])" by blast
    have "pwm (snd s') = pwm (snd s) @ (ws1 @ ws2)" using w1(1) w2(1) by simp
    moreover have "map fst (ws1 @ ws2) = concat (map (written_channels cfg sd) [n..<NUM_SERVOS cfg])"
      using True w1(2) w2(2) by (simp add: upt_conv_Cons)
    ultimately show ?thesis by blast
  next
    case False
    with "1.prems" show ?thesis by (simp add: set_positions_from.simps [of cfg a w t wt sd n s])
  qed
qed

lemma set_positions_from_unwritten:
  "set_positions_from cfg a w t wt sd n s = Some s' \<Longrightarrow>
   (\<not> (sd = SIDE_B cfg \<or> sd = SIDE_P cfg) \<longrightarrow> last_port_angle (snd s') = last_port_angle (snd s))
   \<and> (\<not> (sd = SIDE_B cfg \<or> sd = SIDE_S cfg) \<longrightarrow>
        last_starboard_angle (snd s') = last_starboard_angle (snd s))"
proof (induction cfg a w t wt sd n s rule: set_positions_from.induct)
  case (1 cfg a w t wt sd n s)
  show ?case
  proof (cases "n < NUM_SERVOS cfg")
    case True
    with "1.prems" obtain s1 where b: "servo_body cfg a w t wt sd n s = Some s1"
      and r: "set_positions_from cfg a w t wt sd (Suc n) s1 = Some s'"
      by (auto simp: set_positions_from.simps [of cfg a w t wt sd n s] split: option.splits)
    from "1.IH" [OF True b r] servo_body_port [OF b] servo_body_starboard [OF b]
    show ?thesis by simp
  next
    case False
    with "1.prems" show ?thesis by (simp add: set_positions_from.simps [of cfg a w t wt sd n s])
  qed
qed

lemma set_positions_run:
  assumes "wf_config cfg" and "wf_state st"
  obtains s' where "set_positions_from cfg a w t wt sd 0 (angle0, st) = Some s'"
    and "set_positions cfg a w t wt sd angle0 st = Some (snd s')"
proof -
  from set_positions_Some [OF assms, of a w t wt sd angle0] obtain st' where
    "set_positions cfg a w t wt sd angle0 st = Some st'" by blast
  then show ?thesis using that by (auto simp: set_positions_def)
qed

lemma concat_singletons: "concat (map (\<lambda>k. [f k]) xs) = map f xs"
  by (induction xs) simp_all

text \<open>
  Every write of a call carries the pulse of the angle that the call leaves in the history
  entry of that actuator and side, with the sign inverted on the starboard side.
\<close>

lemma servo_body_pulses:
  assumes "servo_body cfg a w t wt sd k s = Some s'"
  shows "pwm (snd s') = pwm (snd s)
     @ (if sd = SIDE_B cfg \<or> sd = SIDE_P cfg
        then [(k, 0, map_fn cfg (last_port_angle (snd s') ! k) (- 90) 90 (SERVOMIN cfg) (SERVOMAX cfg))]
        else [])
     @ (if sd = SIDE_B cfg \<or> sd = SIDE_S cfg
        then [(k + NUM_SERVOS cfg, 0,
               map_fn cfg (- (last_starboard_angle (snd s') ! k)) (- 90) 90 (SERVOMIN cfg) (SERVOMAX cfg))]
        else [])"
proof -
  let ?s1 = "(calc_angle cfg wt a w t k (fst s), snd s)"
  from assms obtain s2 where
    p: "if sd = SIDE_B cfg \<or> sd = SIDE_P cfg then port_set cfg k ?s1 = Some s2 else s2 = ?s1"
    and q: "if sd = SIDE_B cfg \<or> sd = SIDE_S cfg then starboard_set cfg k s2 = Some s' else s' = s2"
    by (rule servo_body_cases)
  have 0: "last_port_angle (snd s') = last_port_angle (snd s2)"
    using q starboard_set_SomeD(5) [of cfg k s2 s'] by (simp split: if_splits)
  have 1: "pwm (snd s2) = pwm (snd s)
     @ (if sd = SIDE_B cfg \<or> sd = SIDE_P cfg
        then [(k, 0, map_fn cfg (last_port_angle (snd s2) ! k) (- 90) 90 (SERVOMIN cfg) (SERVOMAX cfg))]
        else [])"
    using p port_set_SomeD(2,4,6) [of cfg k ?s1 s2] by (simp split: if_splits)
  have 2: "pwm (snd s') = pwm (snd s2)
     @ (if sd = SIDE_B cfg \<or> sd = SIDE_S cfg
        then [(k + NUM_SERVOS cfg, 0,
               map_fn cfg (- (last_starboard_angle (snd s') ! k)) (- 90) 90 (SERVOMIN cfg) (SERVOMAX cfg))]
        else [])"
    using q starboard_set_SomeD(2,4,6) [of cfg k s2 s'] by (simp split: if_splits)
  show ?thesis unfolding 2 1 0 by simp
qed

lemma set_positions_from_pulses:
  "set_positions_from cfg a w t wt sd n s = Some s' \<Longrightarrow>
   pwm (snd s') = pwm (snd s) @ concat (map (\<lambda>k.
       (if sd = SIDE_B cfg \<or> sd = SIDE_P cfg
        then [(k, 0, map_fn cfg (last_port_angle (snd s') ! k) (- 90) 90 (SERVOMIN cfg) (SERVOMAX cfg))]
        else [])
     @ (if sd = SIDE_B cfg \<or> sd = SIDE_S cfg
        then [(k + NUM_SERVOS cfg, 0,
               map_fn cfg (- (last_starboard_angle (snd s') ! k)) (- 90) 90 (SERVOMIN cfg) (SERVOMAX cfg))]
        else [])) [n..<NUM_SERVOS cfg])"
proof (induction cfg a w t wt sd n s rule: set_positions_from.induct)
  case (1 cfg a w t wt sd n s)
  show ?case
  proof (cases "n < NUM_SERVOS cfg")
    case True
    with "1.prems" obtain s1 where b: "servo_body cfg a w t wt sd n s = Some s1"
      and r: "set_positions_from cfg a w t wt sd (Suc n) s1 = Some s'"
      by (auto simp: set_positions_from.simps [of cfg a w t wt sd n s] split: option.splits)
    have e: "last_port_angle (snd s') ! n = last_port_angle (snd s1) ! n"
      "last_starboard_angle (snd s') ! n = last_starboard_angle (snd s1) ! n"
      using set_positions_from_below [OF r, of n] by simp_all
    from "1.IH" [OF True b r] servo_body_pulses [OF b] True e
    show ?thesis by (simp add: upt_conv_Cons)
  next
    case False
    with "1.prems" show ?thesis by (simp add: set_positions_from.simps [of cfg a w t wt sd n s])
  qed
qed

lemma set_positions_pulses:
  assumes "set_positions cfg a w t wt sd angle0 st = Some st'"
  shows "pwm st' = pwm st @ concat (map (\<lambda>k.
       (if sd = SIDE_B cfg \<or> sd = SIDE_P cfg
        then [(k, 0, map_fn cfg (last_port_angle st' ! k) (- 90) 90 (SERVOMIN cfg) (SERVOMAX cfg))]
        else [])
     @ (if sd = SIDE_B cfg \<or> sd = SIDE_S cfg
        then [(k + NUM_SERVOS cfg, 0,
               map_fn cfg (- (last_starboard_angle st' ! k)) (- 90) 90 (SERVOMIN cfg) (SERVOMAX cfg))]
        else [])) [0..<NUM_SERVOS cfg])"
proof -
  from assms obtain s' where l: "set_positions_from cfg a w t wt sd 0 (angle0, st) = Some s'"
    and s': "st' = snd s'"
    by (auto simp: set_positions_def)
  from set_positions_from_pulses [OF l] show ?thesis unfolding s' by simp
qed

subsection \<open>The waveform dispatch\<close>

lemma calc_angle_default:
  assumes "wt \<notin> {SINWAVE cfg, FLATWAVE cfg, STANDINGWAVE cfg, SINANDFLAT cfg}"
  shows "calc_angle cfg wt a w t k x = x"
  using assms by (simp add: calc_angle_def)

lemma calc_angle_known:
  assumes "wt \<in> {SINWAVE cfg, FLATWAVE cfg, STANDINGWAVE cfg, SINANDFLAT cfg}"
  shows "calc_angle cfg wt a w t k x = calc_angle cfg wt a w t k y"
  using assms by (auto simp: calc_angle_def)

lemma set_positions_from_default:
  assumes "wt \<notin> {SINWAVE cfg, FLATWAVE cfg, STANDINGWAVE cfg, SINANDFLAT cfg}"
  shows "set_positions_from cfg a w t wt sd n s = set_positions_from cfg a' w' t' wt sd n s"
  using assms
proof (induction cfg a w t wt sd n s rule: set_positions_from.induct)
  case (1 cfg a w t wt sd n s)
  have b: "servo_body cfg a w t wt sd n s = servo_body cfg a' w' t' wt sd n s"
    by (simp add: servo_body_def calc_angle_default [OF "1.prems"])
  show ?case
  proof (cases "n < NUM_SERVOS cfg")
    case True
    show ?thesis
    proof (cases "servo_body cfg a w t wt sd n s")
      case None
      have "set_positions_from cfg a w t wt sd n s = None"
        using True None by (simp add: set_positions_from.simps [of cfg a w t wt sd n s])
      moreover have "set_positions_from cfg a' w' t' wt sd n s = None"
        using True None b by (simp add: set_positions_from.simps [of cfg a' w' t' wt sd n s])
      ultimately show ?thesis by simp
    next
      case (Some s1)
      have "set_positions_from cfg a w t wt sd n s = set_positions_from cfg a w t wt sd (Suc n) s1"
        using True Some by (simp add: set_positions_from.simps [of cfg a w t wt sd n s])
      moreover have "set_positions_from cfg a' w' t' wt sd n s =
          set_positions_from cfg a' w' t' wt sd (Suc n) s1"
        using True Some b by (simp add: set_positions_from.simps [of cfg a' w' t' wt sd n s])
      ultimately show ?thesis using "1.IH" [OF True Some "1.prems"] by simp
    qed
  next
    case False
    then show ?thesis
      by (simp add: set_positions_from.simps [of cfg a w t wt sd n s]
            set_positions_from.simps [of cfg a' w' t' wt sd n s])
  qed
qed

lemma set_positions_angle0_irrelevant:
  assumes "wt \<in> {SINWAVE cfg, FLATWAVE cfg, STANDINGWAVE cfg, SINANDFLAT cfg}"
  shows "set_positions cfg a w t wt sd x st = set_positions cfg a w t wt sd y st"
proof -
  have b: "servo_body cfg a w t wt sd 0 (x, st) = servo_body cfg a w t wt sd 0 (y, st)"
    using calc_angle_known [OF assms, of a w t 0 x y] by (simp add: servo_body_def)
  show ?thesis
    unfolding set_positions_def
    by (simp add: set_positions_from.simps [of cfg a w t wt sd 0 "(x, st)"]
          set_positions_from.simps [of cfg a w t wt sd 0 "(y, st)"] b)
qed

text \<open>
  With one of the four wave kinds, what a call stores in a starboard entry: the angle that
  reaches the starboard block is the one the port block has left, when the port block
  has run.
\<close>

lemma set_positions_from_starboard_entry:
  "set_positions_from cfg a w t wt sd n s = Some s' \<Longrightarrow>
   wt \<in> {SINWAVE cfg, FLATWAVE cfg, STANDINGWAVE cfg, SINANDFLAT cfg} \<Longrightarrow>
   n \<le> i \<Longrightarrow> i < NUM_SERVOS cfg \<Longrightarrow>
   last_starboard_angle (snd s') ! i =
     (if sd = SIDE_B cfg \<or> sd = SIDE_S cfg
      then limit_delta cfg (last_starboard_angle (snd s) ! i)
             (float_round cfg ((if sd = SIDE_B cfg \<or> sd = SIDE_P cfg
               then limit_delta cfg (last_port_angle (snd s) ! i)
                      (float_round cfg (calc_angle cfg wt a w t i 0 + NEUTRALS_PORT cfg ! i))
               else calc_angle cfg wt a w t i 0)
              + NEUTRALS_STARBOARD cfg ! i))
      else last_starboard_angle (snd s) ! i)"
proof (induction cfg a w t wt sd n s rule: set_positions_from.induct)
  case (1 cfg a w t wt sd n s)
  from "1.prems"(3,4) have True: "n < NUM_SERVOS cfg" by simp
  with "1.prems"(1) obtain s1 where b: "servo_body cfg a w t wt sd n s = Some s1"
    and r: "set_positions_from cfg a w t wt sd (Suc n) s1 = Some s'"
    by (auto simp: set_positions_from.simps [of cfg a w t wt sd n s] split: option.splits)
  have k: "calc_angle cfg wt a w t n (fst s) = calc_angle cfg wt a w t n 0"
    by (rule calc_angle_known [OF "1.prems"(2)])
  show ?case
  proof (cases "i = n")
    case True
    then have "i < Suc n" by simp
    from set_positions_from_below [OF r this]
    have "last_starboard_angle (snd s') ! i = last_starboard_angle (snd s1) ! i" by simp
    also have "\<dots> = (if sd = SIDE_B cfg \<or> sd = SIDE_S cfg
      then limit_delta cfg (last_starboard_angle (snd s) ! i)
             (float_round cfg ((if sd = SIDE_B cfg \<or> sd = SIDE_P cfg
               then limit_delta cfg (last_port_angle (snd s) ! i)
                      (float_round cfg (calc_angle cfg wt a w t i 0 + NEUTRALS_PORT cfg ! i))
               else calc_angle cfg wt a w t i 0)
              + NEUTRALS_STARBOARD cfg ! i))
      else last_starboard_angle (snd s) ! i)"
      using servo_body_in_range(2) [OF b] True
      by (simp add: servo_body_starboard [OF b] k)
    finally show ?thesis .
  next
    case False
    with "1.prems"(3) have "Suc n \<le> i" by simp
    from "1.IH" [OF \<open>n < NUM_SERVOS cfg\<close> b r "1.prems"(2) this "1.prems"(4)]
      servo_body_other [OF b False]
    show ?thesis by simp
  qed
qed

lemma set_positions_starboard_entry:
  assumes "wf_config cfg" and "wf_state st"
    and "wt \<in> {SINWAVE cfg, FLATWAVE cfg, STANDINGWAVE cfg, SINANDFLAT cfg}"
    and "i < NUM_SERVOS cfg"
  shows "\<exists>st'. set_positions cfg a w t wt sd angle0 st = Some st' \<and>
    last_starboard_angle st' ! i =
     (if sd = SIDE_B cfg \<or> sd = SIDE_S cfg
      then limit_delta cfg (last_starboard_angle st ! i)
             (float_round cfg ((if sd = SIDE_B cfg \<or> sd = SIDE_P cfg
               then limit_delta cfg (last_port_angle st ! i)
                      (float_round cfg (calc_angle cfg wt a w t i 0 + NEUTRALS_PORT cfg ! i))
               else calc_angle cfg wt a w t i 0)
              + NEUTRALS_STARBOARD cfg ! i))
      else last_starboard_angle st ! i)"
proof -
  obtain s' where l: "set_positions_from cfg a w t wt sd 0 (angle0, st) = Some s'"
    and r: "set_positions cfg a w t wt sd angle0 st = Some (snd s')"
    using assms(1,2) by (rule set_positions_run)
  from set_positions_from_starboard_entry [OF l assms(3) _ assms(4)] r show ?thesis by simp
qed

subsection \<open>Claims about set\_positions\<close>

text \<open>
  Claim C2 (slew-rate invariant), as amended. For every call of \<open>set_positions\<close>, every
  actuator index and every side the call writes, the history angle stored by the call is
  one of the two floats that the code computes as the old entry plus and minus
  \<open>MAX_ANGLE_DELTA\<close>, or lies between them. So it differs from the old entry by at most
  \<open>MAX_ANGLE_DELTA\<close> and the rounding error of that one float sum; where the two sums
  are exact, by at most \<open>MAX_ANGLE_DELTA\<close> (lemma \<open>slew_limited_exact\<close>). The call
  returns, for a configuration and a state inside the arrays.
\<close>

theorem set_positions_slew_limited:
  assumes "wf_config cfg" and "wf_state st"
  shows "\<exists>st'. set_positions cfg a w t wt sd angle0 st = Some st' \<and>
           (\<forall>i < NUM_SERVOS cfg.
              (sd = SIDE_B cfg \<or> sd = SIDE_P cfg \<longrightarrow>
                 slew_limited cfg (last_port_angle st ! i) (last_port_angle st' ! i))
            \<and> (sd = SIDE_B cfg \<or> sd = SIDE_S cfg \<longrightarrow>
                 slew_limited cfg (last_starboard_angle st ! i) (last_starboard_angle st' ! i)))"
proof -
  obtain s' where l: "set_positions_from cfg a w t wt sd 0 (angle0, st) = Some s'"
    and r: "set_positions cfg a w t wt sd angle0 st = Some (snd s')"
    using assms by (rule set_positions_run)
  have "\<forall>i < NUM_SERVOS cfg.
              (sd = SIDE_B cfg \<or> sd = SIDE_P cfg \<longrightarrow>
                 slew_limited cfg (last_port_angle st ! i) (last_port_angle (snd s') ! i))
            \<and> (sd = SIDE_B cfg \<or> sd = SIDE_S cfg \<longrightarrow>
                 slew_limited cfg (last_starboard_angle st ! i) (last_starboard_angle (snd s') ! i))"
    using set_positions_from_slew [OF l] by simp
  with r show ?thesis by blast
qed

theorem set_positions_slew_limited_witness:
  "wf_config demo_config \<and> wf_state init_state \<and>
   (\<exists>st'. set_positions demo_config 10 480 120 (SINWAVE demo_config) (SIDE_B demo_config) 0 init_state = Some st' \<and>
      \<bar>last_port_angle st' ! 0 - last_port_angle init_state ! 0\<bar> \<le> 5 \<and>
      \<bar>last_starboard_angle st' ! 4 - last_starboard_angle init_state ! 4\<bar> \<le> 5)"
proof -
  have h: "wf_config demo_config" "wf_state init_state"
    by (simp_all add: wf_config_def wf_state_def demo_config_def init_state_def)
  have e: "float_round demo_config (0 + MAX_ANGLE_DELTA demo_config) = 0 + MAX_ANGLE_DELTA demo_config"
    "float_round demo_config (0 - MAX_ANGLE_DELTA demo_config) = 0 - MAX_ANGLE_DELTA demo_config"
    by (simp_all add: demo_config_def float32_eval)
  have d: "0 \<le> MAX_ANGLE_DELTA demo_config" "MAX_ANGLE_DELTA demo_config = 5"
    "NUM_SERVOS demo_config = 5"
    by (simp_all add: demo_config_def)
  have z: "last_port_angle init_state ! 0 = 0" "last_starboard_angle init_state ! 4 = 0"
    by (simp_all add: init_state_def)
  from set_positions_slew_limited [OF h, of 10 480 120 "SINWAVE demo_config" "SIDE_B demo_config" 0]
  obtain st' where
    r: "set_positions demo_config 10 480 120 (SINWAVE demo_config) (SIDE_B demo_config) 0 init_state = Some st'"
    and p: "slew_limited demo_config (last_port_angle init_state ! 0) (last_port_angle st' ! 0)"
    and q: "slew_limited demo_config (last_starboard_angle init_state ! 4) (last_starboard_angle st' ! 4)"
    using d(3) by auto
  from slew_limited_exact [OF p d(1)] e z d(2)
  have "\<bar>last_port_angle st' ! 0 - last_port_angle init_state ! 0\<bar> \<le> 5" by simp
  moreover from slew_limited_exact [OF q d(1)] e z d(2)
  have "\<bar>last_starboard_angle st' ! 4 - last_starboard_angle init_state ! 4\<bar> \<le> 5" by simp
  ultimately show ?thesis using h r by blast
qed

text \<open>
  Claim C2 as stated (the difference is at most \<open>MAX_ANGLE_DELTA\<close>) fails where the sum is
  rounded. The old port entry of servo 0 is the float nearest to 0.3, \<open>10066330 / 2 ^ 25\<close>;
  the requested angle is 102, beyond the limit; the entry stored is the float nearest to
  the old entry plus 5, \<open>11114906 / 2 ^ 21\<close>, and it is further than 5 from the old one.
\<close>

theorem slew_rate_rounding:
  "float32 (10066330 / 2 ^ 25) = 10066330 / 2 ^ 25
   \<and> set_positions demo_config 100 480 480 (FLATWAVE demo_config) (SIDE_P demo_config) 0
        \<lparr>last_port_angle = [10066330 / 2 ^ 25, 0, 0, 0, 0],
         last_starboard_angle = [0, 0, 0, 0, 0], pwm = []\<rparr> =
       Some \<lparr>last_port_angle = [11114906 / 2 ^ 21, 5, 5, 5, 5],
             last_starboard_angle = [0, 0, 0, 0, 0],
             pwm = [(0, 0, 387), (1, 0, 387), (2, 0, 387), (3, 0, 387), (4, 0, 387)]\<rparr>
   \<and> MAX_ANGLE_DELTA demo_config < \<bar>11114906 / 2 ^ 21 - 10066330 / 2 ^ 25\<bar>"
  by (simp add: set_positions_def set_positions_from.simps servo_body_def port_set_def
        starboard_set_def calc_angle_def limit_delta_def demo_config_def Let_def
        arduino_map_def c_long_def c_div_def float32_eval)

text \<open>
  Claim C10 (side isolation). A call with \<open>side = P\<close> leaves every entry of the starboard
  history unchanged and writes only channels below \<open>NUM_SERVOS\<close>; a call with
  \<open>side = S\<close> leaves every entry of the port history unchanged and writes only channels
  from \<open>NUM_SERVOS\<close> on. The three side constants are distinct.
\<close>

theorem set_positions_side_isolation:
  assumes "wf_config cfg" and "wf_state st"
    and "SIDE_P cfg \<noteq> SIDE_B cfg" and "SIDE_S cfg \<noteq> SIDE_B cfg" and "SIDE_P cfg \<noteq> SIDE_S cfg"
  shows "(\<exists>st' ws. set_positions cfg a w t wt (SIDE_P cfg) angle0 st = Some st'
            \<and> last_starboard_angle st' = last_starboard_angle st
            \<and> pwm st' = pwm st @ ws \<and> (\<forall>x \<in> set ws. fst x < NUM_SERVOS cfg))
       \<and> (\<exists>st' ws. set_positions cfg a w t wt (SIDE_S cfg) angle0 st = Some st'
            \<and> last_port_angle st' = last_port_angle st
            \<and> pwm st' = pwm st @ ws \<and> (\<forall>x \<in> set ws. NUM_SERVOS cfg \<le> fst x))"
proof
  obtain s' where l: "set_positions_from cfg a w t wt (SIDE_P cfg) 0 (angle0, st) = Some s'"
    and r: "set_positions cfg a w t wt (SIDE_P cfg) angle0 st = Some (snd s')"
    using assms(1,2) by (rule set_positions_run)
  from set_positions_from_unwritten [OF l] assms(3,5)
  have h: "last_starboard_angle (snd s') = last_starboard_angle st" by simp
  from set_positions_from_pwm [OF l] obtain ws where
    w: "pwm (snd s') = pwm st @ ws"
       "map fst ws = concat (map (written_channels cfg (SIDE_P cfg)) [0..<NUM_SERVOS cfg])"
    by auto
  have "written_channels cfg (SIDE_P cfg) = (\<lambda>k. [k])"
    using assms(3,5) by (simp add: written_channels_def fun_eq_iff)
  with w(2) have "map fst ws = [0..<NUM_SERVOS cfg]" by (simp add: concat_singletons)
  then have "set (map fst ws) = {0..<NUM_SERVOS cfg}" by simp
  moreover have "\<forall>x \<in> set ws. fst x \<in> set (map fst ws)" by simp
  ultimately have "\<forall>x \<in> set ws. fst x < NUM_SERVOS cfg" by (metis atLeastLessThan_iff)
  with r h w(1)
  show "\<exists>st' ws. set_positions cfg a w t wt (SIDE_P cfg) angle0 st = Some st'
            \<and> last_starboard_angle st' = last_starboard_angle st
            \<and> pwm st' = pwm st @ ws \<and> (\<forall>x \<in> set ws. fst x < NUM_SERVOS cfg)"
    by blast
next
  obtain s' where l: "set_positions_from cfg a w t wt (SIDE_S cfg) 0 (angle0, st) = Some s'"
    and r: "set_positions cfg a w t wt (SIDE_S cfg) angle0 st = Some (snd s')"
    using assms(1,2) by (rule set_positions_run)
  from set_positions_from_unwritten [OF l] assms(4,5)
  have h: "last_port_angle (snd s') = last_port_angle st" by simp
  from set_positions_from_pwm [OF l] obtain ws where
    w: "pwm (snd s') = pwm st @ ws"
       "map fst ws = concat (map (written_channels cfg (SIDE_S cfg)) [0..<NUM_SERVOS cfg])"
    by auto
  have "written_channels cfg (SIDE_S cfg) = (\<lambda>k. [k + NUM_SERVOS cfg])"
    using assms(4,5) by (simp add: written_channels_def fun_eq_iff)
  with w(2) have "map fst ws = map (\<lambda>k. k + NUM_SERVOS cfg) [0..<NUM_SERVOS cfg]"
    by (simp add: concat_singletons)
  then have "set (map fst ws) = (\<lambda>k. k + NUM_SERVOS cfg) ` {0..<NUM_SERVOS cfg}" by simp
  moreover have "\<forall>x \<in> set ws. fst x \<in> set (map fst ws)" by simp
  ultimately have "\<forall>x \<in> set ws. fst x \<in> (\<lambda>k. k + NUM_SERVOS cfg) ` {0..<NUM_SERVOS cfg}"
    by metis
  then have "\<forall>x \<in> set ws. NUM_SERVOS cfg \<le> fst x" by auto
  with r h w(1)
  show "\<exists>st' ws. set_positions cfg a w t wt (SIDE_S cfg) angle0 st = Some st'
            \<and> last_port_angle st' = last_port_angle st
            \<and> pwm st' = pwm st @ ws \<and> (\<forall>x \<in> set ws. NUM_SERVOS cfg \<le> fst x)"
    by blast
qed

theorem set_positions_side_isolation_witness:
  "wf_config demo_config \<and> wf_state init_state
   \<and> SIDE_P demo_config \<noteq> SIDE_B demo_config \<and> SIDE_S demo_config \<noteq> SIDE_B demo_config
   \<and> SIDE_P demo_config \<noteq> SIDE_S demo_config
   \<and> (\<exists>st' ws. set_positions demo_config 10 480 120 (SINWAVE demo_config) (SIDE_P demo_config) 0 init_state = Some st'
         \<and> last_starboard_angle st' = last_starboard_angle init_state
         \<and> pwm st' = pwm init_state @ ws \<and> (\<forall>x \<in> set ws. fst x < NUM_SERVOS demo_config))
   \<and> (\<exists>st' ws. set_positions demo_config 10 480 120 (SINWAVE demo_config) (SIDE_S demo_config) 0 init_state = Some st'
         \<and> last_port_angle st' = last_port_angle init_state
         \<and> pwm st' = pwm init_state @ ws \<and> (\<forall>x \<in> set ws. NUM_SERVOS demo_config \<le> fst x))"
proof -
  have h: "wf_config demo_config" "wf_state init_state"
    "SIDE_P demo_config \<noteq> SIDE_B demo_config" "SIDE_S demo_config \<noteq> SIDE_B demo_config"
    "SIDE_P demo_config \<noteq> SIDE_S demo_config"
    by (simp_all add: wf_config_def wf_state_def demo_config_def init_state_def)
  from set_positions_side_isolation [OF h, of 10 480 120 "SINWAVE demo_config" 0] h
  show ?thesis by blast
qed

text \<open>
  With a wavetype that is none of the four case labels the \<^verbatim>\<open>switch\<close> assigns nothing:
  the call returns, its outcome does not depend on the amplitude, the wavelength or the
  time, and the rest of the loop body still runs, so that for each actuator index in turn
  the port channel and then the starboard channel are written, whichever the side selects.
\<close>

lemma set_positions_default_runs:
  assumes "wf_config cfg" and "wf_state st"
    and "wt \<notin> {SINWAVE cfg, FLATWAVE cfg, STANDINGWAVE cfg, SINANDFLAT cfg}"
  shows "\<exists>st' ws. set_positions cfg a w t wt sd angle0 st = Some st'
           \<and> set_positions cfg a' w' t' wt sd angle0 st = Some st'
           \<and> pwm st' = pwm st @ ws
           \<and> map fst ws = concat (map (written_channels cfg sd) [0..<NUM_SERVOS cfg])"
proof -
  obtain s' where l: "set_positions_from cfg a w t wt sd 0 (angle0, st) = Some s'"
    and r: "set_positions cfg a w t wt sd angle0 st = Some (snd s')"
    using assms(1,2) by (rule set_positions_run)
  from set_positions_from_default [OF assms(3), of a w t sd 0 "(angle0, st)" a' w' t'] r
  have r': "set_positions cfg a' w' t' wt sd angle0 st = Some (snd s')"
    by (simp add: set_positions_def)
  from set_positions_from_pwm [OF l] obtain ws where
    "pwm (snd s') = pwm st @ ws"
    "map fst ws = concat (map (written_channels cfg sd) [0..<NUM_SERVOS cfg])"
    by auto
  with r r' show ?thesis by blast
qed

text \<open>
  Claim C6 at \<^verbatim>\<open>set_positions(10, 480, 0, 99, P)\<close> from the initial state, where 99 is none
  of the four wave kinds. The claim makes the call a no-op. The code reads the local
  \<^verbatim>\<open>angle\<close>, which the \<^verbatim>\<open>switch\<close> has left uninitialised, and runs the port block on
  it: whatever value \<open>angle0\<close> the local holds, the call writes the five port channels and
  changes the port history.
\<close>

theorem unknown_wavetype_not_noop:
  "\<exists>st'. set_positions demo_config 10 480 0 99 (SIDE_P demo_config) angle0 init_state = Some st'
      \<and> map fst (pwm st') = [0, 1, 2, 3, 4]
      \<and> last_port_angle st' \<noteq> last_port_angle init_state"
proof -
  let ?c = demo_config and ?P = "SIDE_P demo_config"
  have h: "wf_config ?c" "wf_state init_state"
    by (simp_all add: wf_config_def wf_state_def demo_config_def init_state_def)
  have sides: "?P = SIDE_B ?c \<or> ?P = SIDE_P ?c" "\<not> (?P = SIDE_B ?c \<or> ?P = SIDE_S ?c)"
    by (simp_all add: demo_config_def)
  have wt: "99 \<notin> {SINWAVE ?c, FLATWAVE ?c, STANDINGWAVE ?c, SINANDFLAT ?c}"
    by (simp add: demo_config_def)
  have n: "0 < NUM_SERVOS ?c" "Suc 0 < NUM_SERVOS ?c" by (simp_all add: demo_config_def)
  obtain s' where l: "set_positions_from ?c 10 480 0 99 ?P 0 (angle0, init_state) = Some s'"
    and r: "set_positions ?c 10 480 0 99 ?P angle0 init_state = Some (snd s')"
    using h by (rule set_positions_run)
  from set_positions_from_pwm [OF l] obtain ws where
    "pwm (snd s') = pwm init_state @ ws"
    "map fst ws = concat (map (written_channels ?c ?P) [0..<NUM_SERVOS ?c])" by auto
  then have w: "map fst (pwm (snd s')) = [0, 1, 2, 3, 4]"
    by (simp add: written_channels_def demo_config_def init_state_def upt_conv_Cons)
  from l n(1) obtain s1 where b1: "servo_body ?c 10 480 0 99 ?P 0 (angle0, init_state) = Some s1"
    and l1: "set_positions_from ?c 10 480 0 99 ?P (Suc 0) s1 = Some s'"
    by (auto simp: set_positions_from.simps [of ?c 10 480 0 99 ?P 0] split: option.splits)
  from l1 n(2) obtain s2 where b2: "servo_body ?c 10 480 0 99 ?P (Suc 0) s1 = Some s2"
    and l2: "set_positions_from ?c 10 480 0 99 ?P (Suc (Suc 0)) s2 = Some s'"
    by (auto simp: set_positions_from.simps [of ?c 10 480 0 99 ?P "Suc 0"] split: option.splits)
  have e0: "last_port_angle (snd s') ! 0 = fst s1"
    using set_positions_from_below [OF l2, of 0] servo_body_other [OF b2, of 0]
      servo_body_port_only(2) [OF b1 sides] by simp
  have s1_1: "last_port_angle (snd s1) ! Suc 0 = 0"
    using servo_body_other [OF b1, of "Suc 0"] by (simp add: init_state_def)
  have e1: "last_port_angle (snd s') ! Suc 0 = limit_delta ?c 0 (float_round ?c (fst s1 + - 3))"
    using set_positions_from_below [OF l2, of "Suc 0"]
      servo_body_port_only [OF b2 sides] s1_1 calc_angle_default [OF wt, of 10 480 0 "Suc 0" "fst s1"]
    by (simp add: demo_config_def)
  have "last_port_angle (snd s') \<noteq> last_port_angle init_state"
  proof
    assume eq: "last_port_angle (snd s') = last_port_angle init_state"
    then have "last_port_angle (snd s') ! 0 = 0" "last_port_angle (snd s') ! Suc 0 = 0"
      by (simp_all add: init_state_def)
    with e0 e1 have "limit_delta ?c 0 (float_round ?c (0 + - 3)) = 0" by simp
    then show False
      by (simp add: limit_delta_def demo_config_def float32_eval)
  qed
  with r w show ?thesis by (intro exI [where x = "snd s'"]) simp
qed

text \<open>
  What the call stores depends on the value the uninitialised local holds: from 0 the port
  history becomes \<open>[2, - 1, - 1, 0, - 1]\<close>, from 1000 it becomes \<open>[5, 2, 2, 3, 2]\<close>.
\<close>

lemma unknown_wavetype_depends_on_angle0:
  "set_positions demo_config 10 480 0 99 (SIDE_P demo_config) 0 init_state =
       Some \<lparr>last_port_angle = [2, - 1, - 1, 0, - 1], last_starboard_angle = [0, 0, 0, 0, 0],
             pwm = [(0, 0, 380), (1, 0, 372), (2, 0, 372), (3, 0, 375), (4, 0, 372)]\<rparr>"
  "set_positions demo_config 10 480 0 99 (SIDE_P demo_config) 1000 init_state =
       Some \<lparr>last_port_angle = [5, 2, 2, 3, 2], last_starboard_angle = [0, 0, 0, 0, 0],
             pwm = [(0, 0, 387), (1, 0, 380), (2, 0, 380), (3, 0, 382), (4, 0, 380)]\<rparr>"
  by (simp_all add: set_positions_def set_positions_from.simps servo_body_def port_set_def
        starboard_set_def calc_angle_def limit_delta_def demo_config_def init_state_def Let_def
        arduino_map_def c_long_def c_div_def float32_eval)

text \<open>
  Claim C7 at the call that \<^verbatim>\<open>servo::init\<close> makes, \<^verbatim>\<open>set_positions(0, 240, 0, SINWAVE, B)\<close>.
  The raw angle is 0, so the claim gives each starboard entry its starboard neutral
  offset, \<open>[1, 0, - 2, 0, 3]\<close>, which is what the same call with side \<open>S\<close> stores. With
  side \<open>B\<close> the port block has already added the port neutral offset to \<^verbatim>\<open>angle\<close>, and
  the starboard entries are the sums of the two offsets.
\<close>

theorem starboard_angle_follows_port:
  "set_positions demo_config 0 240 0 (SINWAVE demo_config) (SIDE_B demo_config) 0 init_state =
       Some \<lparr>last_port_angle = [2, - 3, 0, 1, - 1], last_starboard_angle = [3, - 3, - 2, 1, 2],
             pwm = [(0, 0, 380), (5, 0, 367), (1, 0, 367), (6, 0, 382), (2, 0, 375),
                    (7, 0, 380), (3, 0, 377), (8, 0, 372), (4, 0, 372), (9, 0, 370)]\<rparr>
   \<and> set_positions demo_config 0 240 0 (SINWAVE demo_config) (SIDE_S demo_config) 0 init_state =
       Some \<lparr>last_port_angle = [0, 0, 0, 0, 0], last_starboard_angle = [1, 0, - 2, 0, 3],
             pwm = [(5, 0, 372), (6, 0, 375), (7, 0, 380), (8, 0, 375), (9, 0, 367)]\<rparr>"
  by (simp add: set_positions_def set_positions_from.simps servo_body_def port_set_def
        starboard_set_def calc_angle_def limit_delta_def demo_config_def init_state_def Let_def
        arduino_map_def c_long_def c_div_def float32_eval)

section \<open>clamp\<close>

text \<open>
  Claim C8. \<open>clamp\<close> is a function of its argument alone (and of the constant
  \<open>MAX_TIME_INC\<close>); its result lies between \<open>- MAX_TIME_INC\<close> and \<open>MAX_TIME_INC\<close>, an
  argument already in that interval is returned unchanged, and clamping twice is clamping
  once. \<open>MAX_TIME_INC\<close> is not negative.
\<close>

theorem clamp_range_idempotent:
  assumes "0 \<le> MAX_TIME_INC cfg"
  shows "- MAX_TIME_INC cfg \<le> clamp cfg x \<and> clamp cfg x \<le> MAX_TIME_INC cfg
       \<and> (- MAX_TIME_INC cfg \<le> x \<and> x \<le> MAX_TIME_INC cfg \<longrightarrow> clamp cfg x = x)
       \<and> clamp cfg (clamp cfg x) = clamp cfg x"
  using assms by (auto simp: clamp_def)

theorem clamp_range_idempotent_witness:
  "0 \<le> MAX_TIME_INC demo_config \<and> clamp demo_config 35 = 20 \<and> clamp demo_config (- 35) = - 20
   \<and> clamp demo_config 7 = 7 \<and> clamp demo_config (clamp demo_config 35) = clamp demo_config 35"
proof -
  have h: "0 \<le> MAX_TIME_INC demo_config" by (simp add: demo_config_def)
  have "clamp demo_config 35 = 20" "clamp demo_config (- 35) = - 20" "clamp demo_config 7 = 7"
    by (simp_all add: clamp_def demo_config_def)
  with h clamp_range_idempotent [OF h, of 35] show ?thesis by simp
qed

text \<open>
  The hypothesis is needed: with a negative constant the two tests of \<open>clamp\<close> overlap
  and the result of one call is changed by the next.
\<close>

lemma clamp_negative_constant:
  "MAX_TIME_INC cfg = - 1 \<Longrightarrow> clamp cfg 0 = - 1 \<and> clamp cfg (clamp cfg 0) = 1"
  by (simp add: clamp_def)

section \<open>Properties of drive\_fins\<close>

lemma locals_pure_sway:
  assumes "\<bar>surge\<bar> \<le> 0.05" and "\<bar>yaw\<bar> \<le> 0.05"
  shows "amp_P (drive_fins_locals cfg surge sway pitch yaw amp tm) = amp"
    and "amp_S (drive_fins_locals cfg surge sway pitch yaw amp tm) = amp"
    and "waveform (drive_fins_locals cfg surge sway pitch yaw amp tm) = FLATWAVE cfg"
    and "port (time_new (drive_fins_locals cfg surge sway pitch yaw amp tm)) =
           (if 0 < sway then port tm + clamp cfg (sway * MAX_TIME_INC cfg)
            else if sway < 0 then 0 else port tm)"
    and "starboard (time_new (drive_fins_locals cfg surge sway pitch yaw amp tm)) =
           (if 0 < sway then 0
            else if sway < 0 then starboard tm + clamp cfg (sway * MAX_TIME_INC cfg)
            else starboard tm)"
  using assms by (simp_all add: drive_fins_locals_def)

lemma locals_combined_eq:
  assumes "\<not> (\<bar>surge\<bar> \<le> 0.05 \<and> \<bar>yaw\<bar> \<le> 0.05)"
  shows "drive_fins_locals cfg surge sway pitch yaw amp tm =
     \<lparr>amp_P = (if sway < 0 then amp * (1 - sway) else amp),
      amp_S = (if 0 < sway then amp * (1 - sway) else amp),
      time_new =
        \<lparr>port = port tm + clamp cfg
           (if 0 < yaw then surge * MAX_TIME_INC cfg + yaw * MAX_TIME_INC cfg
            else if yaw < 0 then surge * MAX_TIME_INC cfg - yaw * MAX_TIME_INC cfg
            else surge * MAX_TIME_INC cfg),
         starboard = starboard tm + clamp cfg
           (if 0 < yaw then surge * MAX_TIME_INC cfg - yaw * MAX_TIME_INC cfg
            else if yaw < 0 then surge * MAX_TIME_INC cfg + yaw * MAX_TIME_INC cfg
            else surge * MAX_TIME_INC cfg)\<rparr>,
      waveform = SINWAVE cfg\<rparr>"
proof -
  have "drive_fins_locals cfg surge sway pitch yaw amp tm =
      (let time_inc_P0 = surge * MAX_TIME_INC cfg;
            time_inc_S0 = surge * MAX_TIME_INC cfg;
            time_inc_P = (if yaw > 0 then time_inc_P0 + yaw * MAX_TIME_INC cfg
                          else if yaw < 0 then time_inc_P0 - yaw * MAX_TIME_INC cfg
                          else time_inc_P0);
            time_inc_S = (if yaw > 0 then time_inc_S0 - yaw * MAX_TIME_INC cfg
                          else if yaw < 0 then time_inc_S0 + yaw * MAX_TIME_INC cfg
                          else time_inc_S0)
        in \<lparr>amp_P = (if sway > 0 then amp else if sway < 0 then amp * (1 - sway) else amp),
            amp_S = (if sway > 0 then amp * (1 - sway) else amp),
            time_new = tm\<lparr>port := port tm + clamp cfg time_inc_P,
                          starboard := starboard tm + clamp cfg time_inc_S\<rparr>,
            waveform = SINWAVE cfg\<rparr>)"
    unfolding drive_fins_locals_def using assms by (rule if_not_P)
  also have "\<dots> = \<lparr>amp_P = (if sway < 0 then amp * (1 - sway) else amp),
      amp_S = (if 0 < sway then amp * (1 - sway) else amp),
      time_new =
        \<lparr>port = port tm + clamp cfg
           (if 0 < yaw then surge * MAX_TIME_INC cfg + yaw * MAX_TIME_INC cfg
            else if yaw < 0 then surge * MAX_TIME_INC cfg - yaw * MAX_TIME_INC cfg
            else surge * MAX_TIME_INC cfg),
         starboard = starboard tm + clamp cfg
           (if 0 < yaw then surge * MAX_TIME_INC cfg - yaw * MAX_TIME_INC cfg
            else if yaw < 0 then surge * MAX_TIME_INC cfg + yaw * MAX_TIME_INC cfg
            else surge * MAX_TIME_INC cfg)\<rparr>,
      waveform = SINWAVE cfg\<rparr>"
    by (simp add: Let_def)
  finally show ?thesis .
qed

lemma drive_fins_returns:
  assumes "wf_config cfg" and "wf_state st"
  shows "\<exists>st1 st2.
           set_positions cfg (amp_S (drive_fins_locals cfg surge sway pitch yaw amp tm)) 480
             (port (time_new (drive_fins_locals cfg surge sway pitch yaw amp tm)))
             (waveform (drive_fins_locals cfg surge sway pitch yaw amp tm)) (SIDE_P cfg) 0 st = Some st1
         \<and> set_positions cfg (amp_P (drive_fins_locals cfg surge sway pitch yaw amp tm)) 480
             (starboard (time_new (drive_fins_locals cfg surge sway pitch yaw amp tm)))
             (waveform (drive_fins_locals cfg surge sway pitch yaw amp tm)) (SIDE_S cfg) 0 st1 = Some st2
         \<and> drive_fins cfg surge sway pitch yaw amp tm st =
             Some (time_new (drive_fins_locals cfg surge sway pitch yaw amp tm), st2)
         \<and> wf_state st2"
proof -
  let ?l = "drive_fins_locals cfg surge sway pitch yaw amp tm"
  from set_positions_Some [OF assms] obtain st1 where
    1: "set_positions cfg (amp_S ?l) 480 (port (time_new ?l)) (waveform ?l) (SIDE_P cfg) 0 st = Some st1"
    and w1: "wf_state st1" by blast
  from set_positions_Some [OF assms(1) w1] obtain st2 where
    2: "set_positions cfg (amp_P ?l) 480 (starboard (time_new ?l)) (waveform ?l) (SIDE_S cfg) 0 st1 = Some st2"
    and w2: "wf_state st2" by blast
  have "drive_fins cfg surge sway pitch yaw amp tm st = Some (time_new ?l, st2)"
    unfolding drive_fins_def Let_def using 1 2 by simp
  with 1 2 w2 show ?thesis by blast
qed

text \<open>
  The yaw branches change the operation together with the sign of \<open>yaw\<close>, so the locals
  are the same for \<open>yaw\<close> and \<open>- yaw\<close>.
\<close>

lemma drive_fins_yaw_sign:
  "drive_fins_locals cfg surge sway pitch (- yaw) amp tm = drive_fins_locals cfg surge sway pitch yaw amp tm"
proof (cases "\<bar>surge\<bar> \<le> 0.05 \<and> \<bar>yaw\<bar> \<le> 0.05")
  case True
  then show ?thesis by (simp add: drive_fins_locals_def)
next
  case False
  then have "\<not> (\<bar>surge\<bar> \<le> 0.05 \<and> \<bar>- yaw\<bar> \<le> 0.05)" by simp
  from locals_combined_eq [OF this] locals_combined_eq [OF False] show ?thesis by simp
qed

text \<open>
  Claim C1 (cross-assignment). \<open>drive_fins\<close> always reaches its two calls of
  \<open>set_positions\<close>. The first call has side \<open>P\<close> and the port phase, and its amplitude is
  \<^verbatim>\<open>amp_S\<close>: the amplitude that the combined branch scales by \<open>1 - sway\<close> when
  \<open>sway > 0\<close>. The second has side \<open>S\<close> and the starboard phase, and its amplitude is
  \<^verbatim>\<open>amp_P\<close>: the one scaled when \<open>sway < 0\<close>. The returned phase state is the updated one.
\<close>

theorem drive_fins_cross_amplitudes:
  "drive_fins cfg surge sway pitch yaw amp tm st =
     (case set_positions cfg
             (if (0.05 < \<bar>surge\<bar> \<or> 0.05 < \<bar>yaw\<bar>) \<and> 0 < sway then amp * (1 - sway) else amp) 480
             (port (time_new (drive_fins_locals cfg surge sway pitch yaw amp tm)))
             (waveform (drive_fins_locals cfg surge sway pitch yaw amp tm)) (SIDE_P cfg) 0 st of
        None \<Rightarrow> None
      | Some st1 \<Rightarrow>
          (case set_positions cfg
                  (if (0.05 < \<bar>surge\<bar> \<or> 0.05 < \<bar>yaw\<bar>) \<and> sway < 0 then amp * (1 - sway) else amp) 480
                  (starboard (time_new (drive_fins_locals cfg surge sway pitch yaw amp tm)))
                  (waveform (drive_fins_locals cfg surge sway pitch yaw amp tm)) (SIDE_S cfg) 0 st1 of
             None \<Rightarrow> None
           | Some st2 \<Rightarrow> Some (time_new (drive_fins_locals cfg surge sway pitch yaw amp tm), st2)))"
proof -
  have S: "amp_S (drive_fins_locals cfg surge sway pitch yaw amp tm) =
      (if (0.05 < \<bar>surge\<bar> \<or> 0.05 < \<bar>yaw\<bar>) \<and> 0 < sway then amp * (1 - sway) else amp)"
  proof (cases "\<bar>surge\<bar> \<le> 0.05 \<and> \<bar>yaw\<bar> \<le> 0.05")
    case True
    then have "\<not> (0.05 < \<bar>surge\<bar> \<or> 0.05 < \<bar>yaw\<bar>)" by auto
    with True show ?thesis by (simp only: locals_pure_sway(2) simp_thms if_False)
  next
    case False
    then have "0.05 < \<bar>surge\<bar> \<or> 0.05 < \<bar>yaw\<bar>" by auto
    then show ?thesis by (simp only: locals_combined_eq [OF False] fin_locals.simps simp_thms)
  qed
  have P: "amp_P (drive_fins_locals cfg surge sway pitch yaw amp tm) =
      (if (0.05 < \<bar>surge\<bar> \<or> 0.05 < \<bar>yaw\<bar>) \<and> sway < 0 then amp * (1 - sway) else amp)"
  proof (cases "\<bar>surge\<bar> \<le> 0.05 \<and> \<bar>yaw\<bar> \<le> 0.05")
    case True
    then have "\<not> (0.05 < \<bar>surge\<bar> \<or> 0.05 < \<bar>yaw\<bar>)" by auto
    with True show ?thesis by (simp only: locals_pure_sway(1) simp_thms if_False)
  next
    case False
    then have "0.05 < \<bar>surge\<bar> \<or> 0.05 < \<bar>yaw\<bar>" by auto
    then show ?thesis by (simp only: locals_combined_eq [OF False] fin_locals.simps simp_thms)
  qed
  show ?thesis unfolding drive_fins_def Let_def S P ..
qed

text \<open>
  Claim C3 (pure-sway mode). When \<open>\<bar>surge\<bar> \<le> 0.05\<close>, \<open>\<bar>yaw\<bar> \<le> 0.05\<close> and
  \<open>sway \<noteq> 0\<close>, \<open>drive_fins\<close> returns, both calls of \<open>set_positions\<close> use \<open>FLATWAVE\<close>
  and the unchanged amplitude, and exactly one accumulator advances, by
  \<open>clamp (sway * MAX_TIME_INC)\<close>: the port one when \<open>sway > 0\<close>, the starboard one when
  \<open>sway < 0\<close>; the other one is set to 0. In particular, with a positive
  \<open>MAX_TIME_INC\<close>, \<open>drive_fins 0 0.5 0 0 amp\<close> from phases 0 and 0 returns starboard phase
  0 and a port phase above 0.
\<close>

theorem drive_fins_pure_sway:
  assumes "wf_config cfg" and "wf_state st"
  shows "(\<bar>surge\<bar> \<le> 0.05 \<and> \<bar>yaw\<bar> \<le> 0.05 \<and> sway \<noteq> 0 \<longrightarrow>
          (\<exists>tm' st1 st2.
             drive_fins cfg surge sway pitch yaw amp tm st = Some (tm', st2)
           \<and> set_positions cfg amp 480 (port tm') (FLATWAVE cfg) (SIDE_P cfg) 0 st = Some st1
           \<and> set_positions cfg amp 480 (starboard tm') (FLATWAVE cfg) (SIDE_S cfg) 0 st1 = Some st2
           \<and> (0 < sway \<longrightarrow> port tm' = port tm + clamp cfg (sway * MAX_TIME_INC cfg) \<and> starboard tm' = 0)
           \<and> (sway < 0 \<longrightarrow> starboard tm' = starboard tm + clamp cfg (sway * MAX_TIME_INC cfg) \<and> port tm' = 0)))
       \<and> (0 < MAX_TIME_INC cfg \<longrightarrow>
          (\<exists>tm' st'. drive_fins cfg 0 0.5 0 0 amp \<lparr>port = 0, starboard = 0\<rparr> st = Some (tm', st')
             \<and> starboard tm' = 0 \<and> 0 < port tm'))"
proof (intro conjI impI)
  assume a: "\<bar>surge\<bar> \<le> 0.05 \<and> \<bar>yaw\<bar> \<le> 0.05 \<and> sway \<noteq> 0"
  let ?l = "drive_fins_locals cfg surge sway pitch yaw amp tm"
  from a have s: "\<bar>surge\<bar> \<le> 0.05" "\<bar>yaw\<bar> \<le> 0.05" by simp_all
  from drive_fins_returns [OF assms, of surge sway pitch yaw amp tm] obtain st1 st2 where
    "set_positions cfg (amp_S ?l) 480 (port (time_new ?l)) (waveform ?l) (SIDE_P cfg) 0 st = Some st1"
    "set_positions cfg (amp_P ?l) 480 (starboard (time_new ?l)) (waveform ?l) (SIDE_S cfg) 0 st1 = Some st2"
    "drive_fins cfg surge sway pitch yaw amp tm st = Some (time_new ?l, st2)"
    by blast
  then have
    "drive_fins cfg surge sway pitch yaw amp tm st = Some (time_new ?l, st2)
     \<and> set_positions cfg amp 480 (port (time_new ?l)) (FLATWAVE cfg) (SIDE_P cfg) 0 st = Some st1
     \<and> set_positions cfg amp 480 (starboard (time_new ?l)) (FLATWAVE cfg) (SIDE_S cfg) 0 st1 = Some st2"
    by (simp add: locals_pure_sway(1,2,3) [OF s])
  moreover have "0 < sway \<longrightarrow>
      port (time_new ?l) = port tm + clamp cfg (sway * MAX_TIME_INC cfg) \<and> starboard (time_new ?l) = 0"
    by (simp add: locals_pure_sway(4,5) [OF s])
  moreover have "sway < 0 \<longrightarrow>
      starboard (time_new ?l) = starboard tm + clamp cfg (sway * MAX_TIME_INC cfg) \<and> port (time_new ?l) = 0"
    by (simp add: locals_pure_sway(4,5) [OF s])
  ultimately show "\<exists>tm' st1 st2.
             drive_fins cfg surge sway pitch yaw amp tm st = Some (tm', st2)
           \<and> set_positions cfg amp 480 (port tm') (FLATWAVE cfg) (SIDE_P cfg) 0 st = Some st1
           \<and> set_positions cfg amp 480 (starboard tm') (FLATWAVE cfg) (SIDE_S cfg) 0 st1 = Some st2
           \<and> (0 < sway \<longrightarrow> port tm' = port tm + clamp cfg (sway * MAX_TIME_INC cfg) \<and> starboard tm' = 0)
           \<and> (sway < 0 \<longrightarrow> starboard tm' = starboard tm + clamp cfg (sway * MAX_TIME_INC cfg) \<and> port tm' = 0)"
    by blast
next
  assume m: "0 < MAX_TIME_INC cfg"
  let ?l = "drive_fins_locals cfg 0 0.5 0 0 amp \<lparr>port = 0, starboard = 0\<rparr>"
  have s: "\<bar>0::real\<bar> \<le> 0.05" by simp
  from drive_fins_returns [OF assms, where surge = 0 and sway = "0.5" and pitch = 0 and yaw = 0
      and amp = amp and tm = "\<lparr>port = 0, starboard = 0\<rparr>"] obtain st2 where
    d: "drive_fins cfg 0 0.5 0 0 amp \<lparr>port = 0, starboard = 0\<rparr> st = Some (time_new ?l, st2)"
    by blast
  have "starboard (time_new ?l) = 0" by (simp add: locals_pure_sway(5) [OF s s])
  moreover have "port (time_new ?l) = clamp cfg (0.5 * MAX_TIME_INC cfg)"
    by (simp add: locals_pure_sway(4) [OF s s])
  moreover have "0 < clamp cfg (0.5 * MAX_TIME_INC cfg)" using m by (simp add: clamp_def)
  ultimately show "\<exists>tm' st'. drive_fins cfg 0 0.5 0 0 amp \<lparr>port = 0, starboard = 0\<rparr> st = Some (tm', st')
             \<and> starboard tm' = 0 \<and> 0 < port tm'"
    using d by auto
qed

theorem drive_fins_pure_sway_witness:
  "wf_config demo_config \<and> wf_state init_state \<and>
   (\<exists>tm' st'. drive_fins demo_config 0 0.5 0 0 10 \<lparr>port = 0, starboard = 0\<rparr> init_state = Some (tm', st')
      \<and> starboard tm' = 0 \<and> 0 < port tm')
   \<and> (\<exists>tm' st'. drive_fins demo_config 0.01 (- 0.9) 0 0.02 10 \<lparr>port = 5, starboard = 5\<rparr> init_state = Some (tm', st')
      \<and> port tm' = 0 \<and> starboard tm' = - 13)"
proof -
  have h: "wf_config demo_config" "wf_state init_state"
    by (simp_all add: wf_config_def wf_state_def demo_config_def init_state_def)
  have m: "0 < MAX_TIME_INC demo_config" by (simp add: demo_config_def)
  have c: "clamp demo_config (- 0.9 * MAX_TIME_INC demo_config) = - 18"
    by (simp add: clamp_def demo_config_def)
  from drive_fins_pure_sway [OF h, where amp = 10] m
  have 1: "\<exists>tm' st'. drive_fins demo_config 0 0.5 0 0 10 \<lparr>port = 0, starboard = 0\<rparr> init_state = Some (tm', st')
      \<and> starboard tm' = 0 \<and> 0 < port tm'"
    by blast
  from drive_fins_pure_sway [OF h, where surge = "0.01" and yaw = "0.02" and sway = "- 0.9" and pitch = 0
      and amp = 10 and tm = "\<lparr>port = 5, starboard = 5\<rparr>"] c
  have 2: "\<exists>tm' st'. drive_fins demo_config 0.01 (- 0.9) 0 0.02 10 \<lparr>port = 5, starboard = 5\<rparr> init_state = Some (tm', st')
      \<and> port tm' = 0 \<and> starboard tm' = - 13"
    by auto
  from h 1 2 show ?thesis by blast
qed

text \<open>
  The increments of the combined branch, as the source computes them: both start at
  \<open>surge * MAX_TIME_INC\<close>; for \<open>yaw > 0\<close> the term \<open>yaw * MAX_TIME_INC\<close> is added to the
  port increment and subtracted from the starboard increment, for \<open>yaw < 0\<close> it is
  subtracted from the port increment and added to the starboard increment; each increment
  goes through \<open>clamp\<close>. For \<open>yaw < 0\<close> the term is negative, so the port increment is
  raised and the starboard increment lowered whatever the sign of \<open>yaw\<close>.
\<close>

lemma combined_yaw_increments:
  assumes "wf_config cfg" and "wf_state st" and "0.05 < \<bar>surge\<bar> \<or> 0.05 < \<bar>yaw\<bar>"
  shows "\<exists>tm' st'. drive_fins cfg surge sway pitch yaw amp tm st = Some (tm', st')
     \<and> (0 < yaw \<longrightarrow>
          port tm' = port tm + clamp cfg (surge * MAX_TIME_INC cfg + yaw * MAX_TIME_INC cfg)
        \<and> starboard tm' = starboard tm + clamp cfg (surge * MAX_TIME_INC cfg - yaw * MAX_TIME_INC cfg))
     \<and> (yaw < 0 \<longrightarrow>
          port tm' = port tm + clamp cfg (surge * MAX_TIME_INC cfg - yaw * MAX_TIME_INC cfg)
        \<and> starboard tm' = starboard tm + clamp cfg (surge * MAX_TIME_INC cfg + yaw * MAX_TIME_INC cfg))
     \<and> (yaw = 0 \<longrightarrow>
          port tm' = port tm + clamp cfg (surge * MAX_TIME_INC cfg)
        \<and> starboard tm' = starboard tm + clamp cfg (surge * MAX_TIME_INC cfg))"
proof -
  let ?l = "drive_fins_locals cfg surge sway pitch yaw amp tm"
  from assms(3) have c: "\<not> (\<bar>surge\<bar> \<le> 0.05 \<and> \<bar>yaw\<bar> \<le> 0.05)" by auto
  from drive_fins_returns [OF assms(1,2), of surge sway pitch yaw amp tm] obtain st2 where
    d: "drive_fins cfg surge sway pitch yaw amp tm st = Some (time_new ?l, st2)" by blast
  have p: "port (time_new ?l) = port tm + clamp cfg
           (if 0 < yaw then surge * MAX_TIME_INC cfg + yaw * MAX_TIME_INC cfg
            else if yaw < 0 then surge * MAX_TIME_INC cfg - yaw * MAX_TIME_INC cfg
            else surge * MAX_TIME_INC cfg)"
    by (simp add: locals_combined_eq [OF c])
  have s: "starboard (time_new ?l) = starboard tm + clamp cfg
           (if 0 < yaw then surge * MAX_TIME_INC cfg - yaw * MAX_TIME_INC cfg
            else if yaw < 0 then surge * MAX_TIME_INC cfg + yaw * MAX_TIME_INC cfg
            else surge * MAX_TIME_INC cfg)"
    by (simp add: locals_combined_eq [OF c])
  have "(0 < yaw \<longrightarrow>
          port (time_new ?l) = port tm + clamp cfg (surge * MAX_TIME_INC cfg + yaw * MAX_TIME_INC cfg)
        \<and> starboard (time_new ?l) = starboard tm + clamp cfg (surge * MAX_TIME_INC cfg - yaw * MAX_TIME_INC cfg))
     \<and> (yaw < 0 \<longrightarrow>
          port (time_new ?l) = port tm + clamp cfg (surge * MAX_TIME_INC cfg - yaw * MAX_TIME_INC cfg)
        \<and> starboard (time_new ?l) = starboard tm + clamp cfg (surge * MAX_TIME_INC cfg + yaw * MAX_TIME_INC cfg))
     \<and> (yaw = 0 \<longrightarrow>
          port (time_new ?l) = port tm + clamp cfg (surge * MAX_TIME_INC cfg)
        \<and> starboard (time_new ?l) = starboard tm + clamp cfg (surge * MAX_TIME_INC cfg))"
    unfolding p s by simp
  with d show ?thesis by blast
qed

lemma drive_fins_yaw_sign_ignored:
  "drive_fins cfg surge sway pitch (- yaw) amp tm st = drive_fins cfg surge sway pitch yaw amp tm st"
  by (simp add: drive_fins_def drive_fins_yaw_sign)

text \<open>
  Claim C4 at \<open>surge = 0.25\<close> and \<open>yaw = - 0.5\<close>, from phases 100 and 100, with
  \<open>MAX_TIME_INC = 20\<close>. Both increments start at 5 and the yaw term has size 10. The
  claim has the roles of the two sides depend on the sign of \<open>yaw\<close>; the code returns port
  phase 115 and starboard phase 95 for \<open>yaw = - 0.5\<close>, the same as for \<open>yaw = 0.5\<close>.
\<close>

theorem yaw_sign_ignored:
  "map_option fst (drive_fins demo_config 0.25 0 0 (- 0.5) 10 \<lparr>port = 100, starboard = 100\<rparr> init_state)
     = Some \<lparr>port = 115, starboard = 95\<rparr>
   \<and> map_option fst (drive_fins demo_config 0.25 0 0 0.5 10 \<lparr>port = 100, starboard = 100\<rparr> init_state)
     = Some \<lparr>port = 115, starboard = 95\<rparr>"
proof -
  have h: "wf_config demo_config" "wf_state init_state"
    by (simp_all add: wf_config_def wf_state_def demo_config_def init_state_def)
  have c: "\<not> (\<bar>0.25::real\<bar> \<le> 0.05 \<and> \<bar>- 0.5::real\<bar> \<le> 0.05)" by simp
  have t: "time_new (drive_fins_locals demo_config 0.25 0 0 (- 0.5) 10 \<lparr>port = 100, starboard = 100\<rparr>)
      = \<lparr>port = 115, starboard = 95\<rparr>"
    unfolding locals_combined_eq [OF c] by (simp add: clamp_def demo_config_def)
  from drive_fins_returns [OF h, of "0.25" 0 0 "- 0.5" 10 "\<lparr>port = 100, starboard = 100\<rparr>"]
  obtain st2 where
    d: "drive_fins demo_config 0.25 0 0 (- 0.5) 10 \<lparr>port = 100, starboard = 100\<rparr> init_state =
       Some (time_new (drive_fins_locals demo_config 0.25 0 0 (- 0.5) 10 \<lparr>port = 100, starboard = 100\<rparr>), st2)"
    by blast
  have 1: "map_option fst (drive_fins demo_config 0.25 0 0 (- 0.5) 10 \<lparr>port = 100, starboard = 100\<rparr> init_state)
     = Some \<lparr>port = 115, starboard = 95\<rparr>"
    unfolding d t by simp
  have 2: "drive_fins demo_config 0.25 0 0 0.5 10 \<lparr>port = 100, starboard = 100\<rparr> init_state =
      drive_fins demo_config 0.25 0 0 (- 0.5) 10 \<lparr>port = 100, starboard = 100\<rparr> init_state"
    by (rule drive_fins_yaw_sign_ignored [symmetric])
  show ?thesis unfolding 2 by (rule conjI [OF 1 1])
qed

text \<open>
  Claim C9 (deadband, sway exactly 0). When \<open>\<bar>surge\<bar> \<le> 0.05\<close>, \<open>\<bar>yaw\<bar> \<le> 0.05\<close> and
  \<open>sway = 0\<close>, \<open>drive_fins\<close> returns the phase state it was given, both accumulators
  unchanged, and still calls \<open>set_positions\<close> for the port side and for the starboard
  side with \<open>FLATWAVE\<close> and the unchanged amplitude.
\<close>

theorem drive_fins_deadband_zero_sway:
  assumes "wf_config cfg" and "wf_state st" and "\<bar>surge\<bar> \<le> 0.05" and "\<bar>yaw\<bar> \<le> 0.05"
  shows "\<exists>st1 st2. drive_fins cfg surge 0 pitch yaw amp tm st = Some (tm, st2)
     \<and> set_positions cfg amp 480 (port tm) (FLATWAVE cfg) (SIDE_P cfg) 0 st = Some st1
     \<and> set_positions cfg amp 480 (starboard tm) (FLATWAVE cfg) (SIDE_S cfg) 0 st1 = Some st2"
proof -
  let ?l = "drive_fins_locals cfg surge 0 pitch yaw amp tm"
  have t: "time_new ?l = tm" using assms(3,4) by (simp add: drive_fins_locals_def)
  from drive_fins_returns [OF assms(1,2), of surge 0 pitch yaw amp tm] obtain st1 st2 where
    "set_positions cfg (amp_S ?l) 480 (port (time_new ?l)) (waveform ?l) (SIDE_P cfg) 0 st = Some st1"
    "set_positions cfg (amp_P ?l) 480 (starboard (time_new ?l)) (waveform ?l) (SIDE_S cfg) 0 st1 = Some st2"
    "drive_fins cfg surge 0 pitch yaw amp tm st = Some (time_new ?l, st2)"
    by blast
  then have "drive_fins cfg surge 0 pitch yaw amp tm st = Some (tm, st2)
     \<and> set_positions cfg amp 480 (port tm) (FLATWAVE cfg) (SIDE_P cfg) 0 st = Some st1
     \<and> set_positions cfg amp 480 (starboard tm) (FLATWAVE cfg) (SIDE_S cfg) 0 st1 = Some st2"
    by (simp add: locals_pure_sway(1,2,3) [OF assms(3,4)] t)
  then show ?thesis by blast
qed

theorem drive_fins_deadband_zero_sway_witness:
  "wf_config demo_config \<and> wf_state init_state \<and> \<bar>0.05::real\<bar> \<le> 0.05 \<and> \<bar>- 0.03::real\<bar> \<le> 0.05
   \<and> (\<exists>st1 st2. drive_fins demo_config 0.05 0 0 (- 0.03) 10 \<lparr>port = 7, starboard = - 3\<rparr> init_state
                   = Some (\<lparr>port = 7, starboard = - 3\<rparr>, st2)
        \<and> set_positions demo_config 10 480 7 (FLATWAVE demo_config) (SIDE_P demo_config) 0 init_state = Some st1
        \<and> set_positions demo_config 10 480 (- 3) (FLATWAVE demo_config) (SIDE_S demo_config) 0 st1 = Some st2)"
proof -
  have h: "wf_config demo_config" "wf_state init_state" "\<bar>0.05::real\<bar> \<le> 0.05" "\<bar>- 0.03::real\<bar> \<le> 0.05"
    by (simp_all add: wf_config_def wf_state_def demo_config_def init_state_def)
  from drive_fins_deadband_zero_sway [OF h, of 0 10 "\<lparr>port = 7, starboard = - 3\<rparr>"] h
  show ?thesis by simp
qed

text \<open>
  The amplitudes of the combined branch: one of the two is multiplied by \<open>1 - sway\<close>,
  the other one is the given amplitude. For \<open>sway < 0\<close> the factor exceeds 1.
\<close>

lemma combined_amplitudes:
  assumes "0.05 < \<bar>surge\<bar> \<or> 0.05 < \<bar>yaw\<bar>"
  shows "0 < sway \<Longrightarrow> amp_S (drive_fins_locals cfg surge sway pitch yaw amp tm) = amp * (1 - sway)
                      \<and> amp_P (drive_fins_locals cfg surge sway pitch yaw amp tm) = amp"
    and "sway < 0 \<Longrightarrow> amp_P (drive_fins_locals cfg surge sway pitch yaw amp tm) = amp * (1 - sway)
                      \<and> amp_S (drive_fins_locals cfg surge sway pitch yaw amp tm) = amp"
proof -
  from assms have c: "\<not> (\<bar>surge\<bar> \<le> 0.05 \<and> \<bar>yaw\<bar> \<le> 0.05)" by auto
  show "0 < sway \<Longrightarrow> amp_S (drive_fins_locals cfg surge sway pitch yaw amp tm) = amp * (1 - sway)
                      \<and> amp_P (drive_fins_locals cfg surge sway pitch yaw amp tm) = amp"
    by (simp add: locals_combined_eq [OF c])
  show "sway < 0 \<Longrightarrow> amp_P (drive_fins_locals cfg surge sway pitch yaw amp tm) = amp * (1 - sway)
                      \<and> amp_S (drive_fins_locals cfg surge sway pitch yaw amp tm) = amp"
    by (simp add: locals_combined_eq [OF c])
qed

lemma negative_sway_scales_up:
  assumes "0.05 < \<bar>surge\<bar> \<or> 0.05 < \<bar>yaw\<bar>" and "sway < 0" and "0 < amp"
  shows "amp < amp_P (drive_fins_locals cfg surge sway pitch yaw amp tm)"
proof -
  from assms(2,3) have "amp * 1 < amp * (1 - sway)" by (intro mult_strict_left_mono) simp_all
  with combined_amplitudes(2) [OF assms(1,2)] show ?thesis by simp
qed

text \<open>
  Claim C5 at \<open>surge = 0.5\<close>, \<open>sway = - 0.5\<close>, \<open>yaw = 0\<close>, \<open>amp = 10\<close>: the combined branch
  is taken, \<^verbatim>\<open>amp_S\<close> keeps the amplitude 10, and \<^verbatim>\<open>amp_P\<close>, which the claim says is
  scaled down, is 15.
\<close>

theorem negative_sway_amplitude:
  "amp_P (drive_fins_locals demo_config 0.5 (- 0.5) 0 0 10 \<lparr>port = 0, starboard = 0\<rparr>) = 15
   \<and> amp_S (drive_fins_locals demo_config 0.5 (- 0.5) 0 0 10 \<lparr>port = 0, starboard = 0\<rparr>) = 10"
  by (simp add: drive_fins_locals_def Let_def)

end
